theory Spec2Isabelle
  imports Complex_Main "HOL-Library.Multiset" "HOL-Library.Char_ord"
    "HOL-Library.List_Lexorder" "HOL-Library.Log_Nat"
begin

section \<open>Python values, exceptions and the dataset of the notebook\<close>

text \<open>
  The notebook \<^verbatim>\<open>Spam_Email_Detection.ipynb\<close> is a straight-line script of six code
  cells. Exceptions are values: a computation that may raise returns \<open>exn + 'a\<close>, with
  \<open>Inl\<close> for the exception.
\<close>

datatype exn =
    ValueError string
  | KeyError string
  | IndexError string
  | NotFittedError string
  | OSError string

definition bindE :: "exn + 'a \<Rightarrow> ('a \<Rightarrow> exn + 'b) \<Rightarrow> exn + 'b" where
  "bindE r f = (case r of Inl e \<Rightarrow> Inl e | Inr a \<Rightarrow> f a)"

text \<open>
  Cell 2: the dict literal \<^verbatim>\<open>data\<close>. Python dicts keep insertion order, so the dict is
  an association list from column name to the column's values.
\<close>

definition data :: "(string \<times> string list) list" where
  "data =
    [(''email'',
       [''win a free prize now click here'',
        ''meeting at 10am tomorrow'',
        ''urgent money transfer needed'',
        ''hello how are you today'',
        ''claim your lottery winnings'',
        ''project update for team'',
        ''buy cheap products online now'',
        ''lunch plans this afternoon'',
        ''exclusive offer just for you'',
        ''review the attached document'']),
     (''label'',
       [''spam'', ''ham'', ''spam'', ''ham'', ''spam'', ''ham'', ''spam'', ''ham'', ''spam'',
        ''ham''])]"

text \<open>
  A pandas DataFrame: the column names, the row labels (a RangeIndex) and the rows.
  \<^verbatim>\<open>pd.DataFrame(dict)\<close> raises ValueError when the columns differ in length.
\<close>

record dataframe =
  df_columns :: "string list"
  df_index :: "nat list"
  df_rows :: "string list list"

definition DataFrame :: "(string \<times> string list) list \<Rightarrow> exn + dataframe" where
  "DataFrame d =
    (case remdups (map (\<lambda>c. length (snd c)) d) of
       [] \<Rightarrow> Inr \<lparr>df_columns = [], df_index = [], df_rows = []\<rparr>
     | [n] \<Rightarrow>
         Inr \<lparr>df_columns = map fst d, df_index = [0..<n],
              df_rows = map (\<lambda>i. map (\<lambda>c. snd c ! i) d) [0..<n]\<rparr>
     | _ \<Rightarrow> Inl (ValueError ''All arrays must be of the same length''))"

text \<open>
  A pandas Series: the values of one column, each with its row label.
  \<^verbatim>\<open>df[name]\<close> raises KeyError for a name that is not a column.
\<close>

type_synonym series = "(nat \<times> string) list"

fun position :: "'a \<Rightarrow> 'a list \<Rightarrow> nat option" where
  "position a [] = None"
| "position a (x # xs) = (if a = x then Some 0 else map_option Suc (position a xs))"

definition getitem :: "dataframe \<Rightarrow> string \<Rightarrow> exn + series" where
  "getitem df name =
    (case position name (df_columns df) of
       None \<Rightarrow> Inl (KeyError name)
     | Some k \<Rightarrow> Inr (zip (df_index df) (map (\<lambda>r. r ! k) (df_rows df))))"

text \<open>
  \<^verbatim>\<open>df.to_csv(path, index=False)\<close>: a header line with the column names, then one line
  per row, without the row labels. A field is quoted only when it holds the delimiter,
  a quote or a line break (minimal quoting), with quotes doubled. The file is modelled as
  its list of lines, without the platform's line terminator.
\<close>

definition csv_field :: "string \<Rightarrow> string" where
  "csv_field s =
    (if list_ex (\<lambda>c. c = CHR '','' \<or> c = CHR 0x22 \<or> c = CHR 0x0A \<or> c = CHR 0x0D) s
     then [CHR 0x22] @ concat (map (\<lambda>c. if c = CHR 0x22 then [c, c] else [c]) s) @ [CHR 0x22]
     else s)"

fun csv_line :: "string list \<Rightarrow> string" where
  "csv_line [] = []"
| "csv_line [f] = csv_field f"
| "csv_line (f # fs) = csv_field f @ '','' @ csv_line fs"

definition to_csv_lines :: "dataframe \<Rightarrow> string list" where
  "to_csv_lines df = csv_line (df_columns df) # map csv_line (df_rows df)"


section \<open>Binary64 floating point\<close>

text \<open>
  A finite Python float is the rational it denotes. \<open>fl\<close> rounds a rational to the
  nearest binary64 value, ties to even (53 significant bits; overflow and subnormals do
  not arise in the notebook). The literal \<^verbatim>\<open>0.3\<close> is \<open>fl (3 / 10)\<close>, which is not
  \<open>3 / 10\<close>.
\<close>

type_synonym float = rat

definition round_half_even :: "rat \<Rightarrow> int" where
  "round_half_even q =
    (let f = \<lfloor>q\<rfloor>; r = q - of_int f
     in if r < 1 / 2 then f else if 1 / 2 < r then f + 1 else if even f then f else f + 1)"

definition ilog2 :: "rat \<Rightarrow> int" where
  "ilog2 x =
    (let d = bitlen (fst (quotient_of x)) - bitlen (snd (quotient_of x))
     in if 2 powi d \<le> x then d else d - 1)"

definition fl :: "rat \<Rightarrow> float" where
  "fl x =
    (if x = 0 then 0
     else let a = \<bar>x\<bar>; e = ilog2 a - 52
          in sgn x * of_int (round_half_even (a / 2 powi e)) * 2 powi e)"

definition float_mul :: "float \<Rightarrow> float \<Rightarrow> float" where
  "float_mul a b = fl (a * b)"

definition float_div :: "float \<Rightarrow> float \<Rightarrow> float" where
  "float_div a b = fl (a / b)"

section \<open>The libraries\<close>

text \<open>
  NumPy, scikit-learn, pandas, matplotlib and seaborn are not part of the repository.
  What the notebook's results depend on but the notebook does not fix (the generator
  behind \<^verbatim>\<open>RandomState\<close>, the tokenizer, stop-word list and weights of the TF-IDF
  vectorizer, the estimates and scores of the Naive Bayes classifier, the text of the
  classification report) is a parameter: a record of functions, any of which may raise
  where the library may. Everything else follows the libraries' documented behaviour and
  is written out below.

  A call can also raise for a reason that its arguments do not decide (a path that cannot
  be written, a closed output stream, no memory), and it can write warnings on standard
  error. Both are parameters too: \<open>raises L k c\<close> is the exception, if any, that the
  \<open>k\<close>-th statement of the run raises when it is a call of \<open>c\<close>, and \<open>warns L c\<close> are the
  lines a call of \<open>c\<close> writes on standard error. \<open>Print\<close> stands for the builtin
  \<^verbatim>\<open>print\<close>.
\<close>

datatype call =
    Np_random_seed | Pd_DataFrame | To_csv | Getitem | Train_test_split
  | New_TfidfVectorizer | Fit_transform | Transform
  | New_MultinomialNB | Fit | Predict
  | Accuracy_score | Classification_report | Confusion_matrix
  | Plt_figure | Sns_heatmap | Plt_title | Plt_xlabel | Plt_ylabel | Plt_show
  | Print

type_synonym rng_state = nat

record ('v, 'x, 'p) library =
  RandomState :: "nat \<Rightarrow> rng_state"
  permutation :: "rng_state \<Rightarrow> nat \<Rightarrow> nat list"
  tfidf_learn :: "string option \<Rightarrow> nat option \<Rightarrow> string list \<Rightarrow> exn + 'v"
  tfidf_row :: "'v \<Rightarrow> string \<Rightarrow> 'x"
  tfidf_width :: "'v \<Rightarrow> nat"
  nb_learn :: "float \<Rightarrow> 'x list \<Rightarrow> string list \<Rightarrow> exn + 'p"
  nb_jll :: "'p \<Rightarrow> 'x \<Rightarrow> nat \<Rightarrow> float"
  classification_report :: "string list \<Rightarrow> string list \<Rightarrow> string list \<Rightarrow> exn + string"
  raises :: "nat \<Rightarrow> call \<Rightarrow> exn option"
  warns :: "call \<Rightarrow> string list"

subsection \<open>\<^verbatim>\<open>sklearn.model_selection.train_test_split\<close>\<close>

text \<open>
  \<^verbatim>\<open>check_random_state\<close>: an integer seed makes a fresh generator; only \<^verbatim>\<open>None\<close> uses
  NumPy's global one.
\<close>

definition check_random_state ::
  "('v, 'x, 'p) library \<Rightarrow> rng_state \<Rightarrow> nat option \<Rightarrow> rng_state" where
  "check_random_state L global seed =
    (case seed of None \<Rightarrow> global | Some s \<Rightarrow> RandomState L s)"

text \<open>Positional indexing (\<^verbatim>\<open>.iloc\<close>) raises IndexError out of range.\<close>

definition safe_indexing :: "'a list \<Rightarrow> nat list \<Rightarrow> exn + 'a list" where
  "safe_indexing xs inds =
    (if list_all (\<lambda>i. i < length xs) inds then Inr (map (\<lambda>i. xs ! i) inds)
     else Inl (IndexError ''positional indexers are out-of-bounds''))"

text \<open>
  With a float \<^verbatim>\<open>test_size\<close> and no \<^verbatim>\<open>train_size\<close>: \<^verbatim>\<open>n_test = ceil(test_size * n_samples)\<close>,
  \<^verbatim>\<open>n_train = n_samples - n_test\<close>; the test indices are the first \<^verbatim>\<open>n_test\<close> entries of one
  permutation of the positions, the training indices the next \<^verbatim>\<open>n_train\<close>. The result is
  \<^verbatim>\<open>X_train, X_test, y_train, y_test\<close>.
\<close>

definition train_test_split ::
  "('v, 'x, 'p) library \<Rightarrow> rng_state \<Rightarrow> series \<Rightarrow> series \<Rightarrow> float \<Rightarrow> nat option
    \<Rightarrow> exn + (series \<times> series \<times> series \<times> series)" where
  "train_test_split L global X y test_size random_state =
    (if length X \<noteq> length y
     then Inl (ValueError ''Found input variables with inconsistent numbers of samples'')
     else if \<not> (0 < test_size \<and> test_size < 1)
     then Inl (ValueError ''test_size should be a float in the (0, 1) range'')
     else
       let n_samples = length X;
           n_test = nat \<lceil>float_mul test_size (of_nat n_samples)\<rceil>;
           n_train = n_samples - n_test
       in if n_train = 0 then Inl (ValueError ''the resulting train set will be empty'')
          else
            let rng = check_random_state L global random_state;
                perm = permutation L rng n_samples;
                ind_test = take n_test perm;
                ind_train = take n_train (drop n_test perm)
            in bindE (safe_indexing X ind_train) (\<lambda>X_train.
               bindE (safe_indexing X ind_test) (\<lambda>X_test.
               bindE (safe_indexing y ind_train) (\<lambda>y_train.
               bindE (safe_indexing y ind_test) (\<lambda>y_test.
               Inr (X_train, X_test, y_train, y_test))))))"

subsection \<open>\<^verbatim>\<open>TfidfVectorizer\<close>\<close>

text \<open>
  The vectorizer object: its two constructor arguments and, once fitted, what it learnt
  (vocabulary and inverse document frequencies). \<^verbatim>\<open>fit_transform\<close> learns from the
  documents and returns the fitted object with their matrix; \<^verbatim>\<open>transform\<close> only reads
  the object, and raises NotFittedError before a fit. A matrix is its number of columns
  and its rows, one row per document.
\<close>

record 'v tfidf_vectorizer =
  stop_words :: "string option"
  max_features :: "nat option"
  vocabulary :: "'v option"

record 'x matrix =
  ncols :: nat
  mrows :: "'x list"

definition TfidfVectorizer :: "string option \<Rightarrow> nat option \<Rightarrow> 'v tfidf_vectorizer" where
  "TfidfVectorizer sw mf = \<lparr>stop_words = sw, max_features = mf, vocabulary = None\<rparr>"

definition transform_with :: "('v, 'x, 'p) library \<Rightarrow> 'v \<Rightarrow> string list \<Rightarrow> 'x matrix" where
  "transform_with L v docs = \<lparr>ncols = tfidf_width L v, mrows = map (tfidf_row L v) docs\<rparr>"

definition fit_transform ::
  "('v, 'x, 'p) library \<Rightarrow> 'v tfidf_vectorizer \<Rightarrow> string list
    \<Rightarrow> exn + ('v tfidf_vectorizer \<times> 'x matrix)" where
  "fit_transform L t docs =
    bindE (tfidf_learn L (stop_words t) (max_features t) docs) (\<lambda>v.
      Inr (t\<lparr>vocabulary := Some v\<rparr>, transform_with L v docs))"

definition transform ::
  "('v, 'x, 'p) library \<Rightarrow> 'v tfidf_vectorizer \<Rightarrow> string list \<Rightarrow> exn + 'x matrix" where
  "transform L t docs =
    (case vocabulary t of
       None \<Rightarrow> Inl (NotFittedError ''The TF-IDF vectorizer is not fitted'')
     | Some v \<Rightarrow> Inr (transform_with L v docs))"

subsection \<open>\<^verbatim>\<open>MultinomialNB\<close>\<close>

text \<open>
  The classifier object: the smoothing parameter and, once fitted, \<^verbatim>\<open>classes_\<close> (the
  sorted distinct labels), \<^verbatim>\<open>n_features_in_\<close> and the estimates. \<^verbatim>\<open>predict\<close> takes, for
  each row, the class whose joint log likelihood is largest, the first one on a tie
  (\<^verbatim>\<open>classes_[argmax(jll, axis=1)]\<close>). The scores are finite floats.
\<close>

record 'p multinomial_nb =
  alpha :: float
  fitted :: "(string list \<times> nat \<times> 'p) option"

definition MultinomialNB :: "'p multinomial_nb" where
  "MultinomialNB = \<lparr>alpha = 1, fitted = None\<rparr>"

definition fit ::
  "('v, 'x, 'p) library \<Rightarrow> 'p multinomial_nb \<Rightarrow> 'x matrix \<Rightarrow> string list
    \<Rightarrow> exn + 'p multinomial_nb" where
  "fit L m X y =
    (if length (mrows X) \<noteq> length y
     then Inl (ValueError ''Found input variables with inconsistent numbers of samples'')
     else bindE (nb_learn L (alpha m) (mrows X) y) (\<lambda>p.
       Inr (m\<lparr>fitted := Some (sort (remdups y), ncols X, p)\<rparr>)))"

fun argmax_from :: "float \<Rightarrow> nat \<Rightarrow> nat \<Rightarrow> float list \<Rightarrow> nat" where
  "argmax_from best k i [] = k"
| "argmax_from best k i (x # xs) =
     (if best < x then argmax_from x i (Suc i) xs else argmax_from best k (Suc i) xs)"

definition argmax :: "float list \<Rightarrow> exn + nat" where
  "argmax xs =
    (case xs of
       [] \<Rightarrow> Inl (ValueError ''attempt to get argmax of an empty sequence'')
     | x # r \<Rightarrow> Inr (argmax_from x 0 1 r))"

fun mapE :: "('a \<Rightarrow> exn + 'b) \<Rightarrow> 'a list \<Rightarrow> exn + 'b list" where
  "mapE f [] = Inr []"
| "mapE f (x # xs) = bindE (f x) (\<lambda>b. bindE (mapE f xs) (\<lambda>bs. Inr (b # bs)))"

definition predict ::
  "('v, 'x, 'p) library \<Rightarrow> 'p multinomial_nb \<Rightarrow> 'x matrix \<Rightarrow> exn + string list" where
  "predict L m X =
    (case fitted m of
       None \<Rightarrow> Inl (NotFittedError ''This MultinomialNB instance is not fitted yet'')
     | Some (classes, n_features_in, p) \<Rightarrow>
         if ncols X \<noteq> n_features_in
         then Inl (ValueError ''X has a different number of features than MultinomialNB expects'')
         else mapE (\<lambda>x. bindE (argmax (map (nb_jll L p x) [0..<length classes]))
                          (\<lambda>k. Inr (classes ! k)))
                (mrows X))"

subsection \<open>\<^verbatim>\<open>sklearn.metrics\<close>\<close>

text \<open>
  The accuracy is the share of positions where prediction and truth agree (\<open>None\<close> is
  the float nan of an empty input). The confusion matrix counts, for the sorted distinct
  labels occurring in either list, the pairs (true label, predicted label).
\<close>

definition accuracy_score :: "string list \<Rightarrow> string list \<Rightarrow> exn + float option" where
  "accuracy_score y_true y_pred =
    (if length y_true \<noteq> length y_pred
     then Inl (ValueError ''Found input variables with inconsistent numbers of samples'')
     else if y_true = [] then Inr None
     else Inr (Some (float_div (of_nat (length (filter (\<lambda>(t, p). t = p) (zip y_true y_pred))))
                               (of_nat (length y_true)))))"

definition confusion_matrix :: "string list \<Rightarrow> string list \<Rightarrow> exn + nat list list" where
  "confusion_matrix y_true y_pred =
    (if length y_true \<noteq> length y_pred
     then Inl (ValueError ''Found input variables with inconsistent numbers of samples'')
     else
       let labels = sort (remdups (y_true @ y_pred))
       in Inr (map (\<lambda>t. map (\<lambda>p. length (filter (\<lambda>tp. tp = (t, p)) (zip y_true y_pred))) labels)
                 labels))"


section \<open>The interpreter state and the statements of the notebook\<close>

text \<open>
  What a run leaves outside the Python variables: the state of NumPy's global generator,
  the figure matplotlib is drawing on, the number of statements run so far, the lines
  written on standard error, the record of the library calls made (each with the
  exception it raised, if any; a \<^verbatim>\<open>print\<close> is recorded only when it raises), and the
  effects of the notebook's own statements in the order they happened: text printed under
  a cell, a file written, a figure shown.
\<close>

record heatmap =
  hm_data :: "nat list list"
  hm_annot :: bool
  hm_fmt :: string
  hm_cmap :: string
  hm_xticklabels :: "string list"
  hm_yticklabels :: "string list"

record figure =
  fig_size :: "rat \<times> rat"
  fig_heatmap :: "heatmap option"
  fig_title :: string
  fig_xlabel :: string
  fig_ylabel :: string

datatype pyval =
    Str string
  | Frame dataframe
  | Shape "nat \<times> nat"
  | Labels "string list"
  | Fixed2 "float option"

datatype effect =
    Stdout "pyval list"
  | FileWrite string "string list"
  | Display figure

record world =
  np_random_state :: rng_state
  gcf :: "figure option"
  steps :: nat
  stderr :: "string list"
  calls :: "(call \<times> exn option) list"
  effects :: "effect list"

text \<open>
  A statement takes the world and returns a value or raises, with the world it leaves.
  Statements run in sequence; an exception ends the run where it is raised: the notebook
  has no \<^verbatim>\<open>try\<close>, so sequencing is the only way statements are combined.
\<close>

type_synonym 'a py = "world \<Rightarrow> (exn + 'a) \<times> world"

definition ret :: "'a \<Rightarrow> 'a py" where
  "ret a w = (Inr a, w)"

definition andthen :: "'a py \<Rightarrow> ('a \<Rightarrow> 'b py) \<Rightarrow> 'b py" where
  "andthen m f w = (case m w of (Inl e, w') \<Rightarrow> (Inl e, w') | (Inr a, w') \<Rightarrow> f a w')"

definition modify :: "(world \<Rightarrow> world) \<Rightarrow> unit py" where
  "modify f w = (Inr (), f w)"

text \<open>
  A library call whose arguments give the outcome \<open>r\<close>: it writes its warnings, it is
  recorded, and it raises what the environment makes it raise, or else returns or raises
  \<open>r\<close>.
\<close>

definition lib :: "('v, 'x, 'p) library \<Rightarrow> call \<Rightarrow> exn + 'a \<Rightarrow> 'a py" where
  "lib L c r w =
    (let k = steps w;
         w1 = w\<lparr>steps := Suc k, stderr := stderr w @ warns L c\<rparr>
     in case raises L k c of
          Some e \<Rightarrow> (Inl e, w1\<lparr>calls := calls w @ [(c, Some e)]\<rparr>)
        | None \<Rightarrow>
            (r, w1\<lparr>calls := calls w @ [(c, case r of Inl e \<Rightarrow> Some e | Inr _ \<Rightarrow> None)]\<rparr>))"

definition print :: "('v, 'x, 'p) library \<Rightarrow> pyval list \<Rightarrow> unit py" where
  "print L vs w =
    (let k = steps w; w1 = w\<lparr>steps := Suc k\<rparr>
     in case raises L k Print of
          Some e \<Rightarrow> (Inl e, w1\<lparr>calls := calls w @ [(Print, Some e)]\<rparr>)
        | None \<Rightarrow> (Inr (), w1\<lparr>effects := effects w @ [Stdout vs]\<rparr>))"

fun for_each :: "('a \<Rightarrow> unit py) \<Rightarrow> 'a list \<Rightarrow> unit py" where
  "for_each body [] = ret ()"
| "for_each body (x # xs) = andthen (body x) (\<lambda>_. for_each body xs)"

text \<open>
  \<^verbatim>\<open>np.random.seed(s)\<close> sets the global generator, and \<^verbatim>\<open>df.to_csv(path, index=False)\<close>
  writes the file, when the call returns; a call that raises leaves the generator as it
  was, and writes nothing.
\<close>

definition np_random_seed :: "('v, 'x, 'p) library \<Rightarrow> nat \<Rightarrow> unit py" where
  "np_random_seed L s =
    andthen (lib L Np_random_seed (Inr ()))
      (\<lambda>_. modify (\<lambda>w. w\<lparr>np_random_state := RandomState L s\<rparr>))"

definition to_csv :: "('v, 'x, 'p) library \<Rightarrow> dataframe \<Rightarrow> string \<Rightarrow> unit py" where
  "to_csv L df path =
    andthen (lib L To_csv (Inr ()))
      (\<lambda>_. modify (\<lambda>w. w\<lparr>effects := effects w @ [FileWrite path (to_csv_lines df)]\<rparr>))"

text \<open>
  pyplot draws on its current figure; a drawing call without one makes a figure of the
  default size first. \<^verbatim>\<open>plt.show()\<close> shows the current figure and leaves none.
\<close>

definition new_figure :: "rat \<times> rat \<Rightarrow> figure" where
  "new_figure sz =
    \<lparr>fig_size = sz, fig_heatmap = None, fig_title = [], fig_xlabel = [], fig_ylabel = []\<rparr>"

definition current_figure :: "world \<Rightarrow> figure" where
  "current_figure w = (case gcf w of None \<Rightarrow> new_figure (32 / 5, 24 / 5) | Some f \<Rightarrow> f)"

definition draw :: "('v, 'x, 'p) library \<Rightarrow> call \<Rightarrow> (figure \<Rightarrow> figure) \<Rightarrow> unit py" where
  "draw L c upd =
    andthen (lib L c (Inr ()))
      (\<lambda>_. modify (\<lambda>w. w\<lparr>gcf := Some (upd (current_figure w))\<rparr>))"

definition plt_figure :: "('v, 'x, 'p) library \<Rightarrow> rat \<times> rat \<Rightarrow> unit py" where
  "plt_figure L sz = draw L Plt_figure (\<lambda>_. new_figure sz)"

definition sns_heatmap ::
  "('v, 'x, 'p) library \<Rightarrow> nat list list \<Rightarrow> bool \<Rightarrow> string \<Rightarrow> string \<Rightarrow> string list
    \<Rightarrow> string list \<Rightarrow> unit py" where
  "sns_heatmap L d an fm cm xt yt =
    draw L Sns_heatmap (\<lambda>f. f\<lparr>fig_heatmap :=
      Some \<lparr>hm_data = d, hm_annot = an, hm_fmt = fm, hm_cmap = cm,
            hm_xticklabels = xt, hm_yticklabels = yt\<rparr>\<rparr>)"

definition plt_title :: "('v, 'x, 'p) library \<Rightarrow> string \<Rightarrow> unit py" where
  "plt_title L s = draw L Plt_title (\<lambda>f. f\<lparr>fig_title := s\<rparr>)"

definition plt_xlabel :: "('v, 'x, 'p) library \<Rightarrow> string \<Rightarrow> unit py" where
  "plt_xlabel L s = draw L Plt_xlabel (\<lambda>f. f\<lparr>fig_xlabel := s\<rparr>)"

definition plt_ylabel :: "('v, 'x, 'p) library \<Rightarrow> string \<Rightarrow> unit py" where
  "plt_ylabel L s = draw L Plt_ylabel (\<lambda>f. f\<lparr>fig_ylabel := s\<rparr>)"

definition plt_show :: "('v, 'x, 'p) library \<Rightarrow> unit py" where
  "plt_show L =
    andthen (lib L Plt_show (Inr ()))
      (\<lambda>_. modify (\<lambda>w. w\<lparr>gcf := None,
          effects := effects w @ (case gcf w of None \<Rightarrow> [] | Some f \<Rightarrow> [Display f])\<rparr>))"

section \<open>The six code cells\<close>

text \<open>Cell 1: the imports, and \<^verbatim>\<open>np.random.seed(42)\<close>.\<close>

definition cell1 :: "('v, 'x, 'p) library \<Rightarrow> unit py" where
  "cell1 L = np_random_seed L 42"

text \<open>Cell 2: the DataFrame of \<open>data\<close>, printed and saved as CSV without the index.\<close>

definition cell2 :: "('v, 'x, 'p) library \<Rightarrow> dataframe py" where
  "cell2 L =
    andthen (lib L Pd_DataFrame (DataFrame data)) (\<lambda>df.
    andthen (print L [Str ''Sample Dataset:'']) (\<lambda>_.
    andthen (print L [Frame df]) (\<lambda>_.
    andthen (to_csv L df ''spam_email_data.csv'') (\<lambda>_.
    ret df))))"

text \<open>
  Cell 3: the two columns, the split of the raw text and labels, then the vectorizer,
  fitted on the training text and applied to the test text.
\<close>

definition shape :: "'x matrix \<Rightarrow> nat \<times> nat" where
  "shape m = (length (mrows m), ncols m)"

definition cell3 ::
  "('v, 'x, 'p) library \<Rightarrow> dataframe \<Rightarrow>
    (series \<times> series \<times> series \<times> series \<times> series \<times> series \<times>
     'v tfidf_vectorizer \<times> 'x matrix \<times> 'x matrix) py" where
  "cell3 L df =
    andthen (lib L Getitem (getitem df ''email'')) (\<lambda>X.
    andthen (lib L Getitem (getitem df ''label'')) (\<lambda>y.
    andthen (\<lambda>w. lib L Train_test_split
                 (train_test_split L (np_random_state w) X y (fl (3 / 10)) (Some 42)) w)
      (\<lambda>(X_train, X_test, y_train, y_test).
    andthen (lib L New_TfidfVectorizer (Inr (TfidfVectorizer (Some ''english'') (Some 100))))
      (\<lambda>tfidf0.
    andthen (lib L Fit_transform (fit_transform L tfidf0 (map snd X_train)))
      (\<lambda>(tfidf, X_train_tfidf).
    andthen (lib L Transform (transform L tfidf (map snd X_test))) (\<lambda>X_test_tfidf.
    andthen (print L [Str ''Training data shape: '', Shape (shape X_train_tfidf)]) (\<lambda>_.
    andthen (print L [Str ''Testing data shape: '', Shape (shape X_test_tfidf)]) (\<lambda>_.
    ret (X, y, X_train, X_test, y_train, y_test, tfidf, X_train_tfidf, X_test_tfidf)))))))))"

text \<open>Cell 4: the classifier, fitted on the training matrix, predicting the test matrix.\<close>

definition cell4 ::
  "('v, 'x, 'p) library \<Rightarrow> 'x matrix \<Rightarrow> series \<Rightarrow> 'x matrix
    \<Rightarrow> ('p multinomial_nb \<times> string list) py" where
  "cell4 L X_train_tfidf y_train X_test_tfidf =
    andthen (lib L New_MultinomialNB (Inr MultinomialNB)) (\<lambda>model0.
    andthen (lib L Fit (fit L model0 X_train_tfidf (map snd y_train))) (\<lambda>model.
    andthen (lib L Predict (predict L model X_test_tfidf)) (\<lambda>y_pred.
    andthen (print L [Str ''Predictions on test set:'', Labels y_pred]) (\<lambda>_.
    ret (model, y_pred)))))"

text \<open>Cell 5: accuracy, classification report and the confusion matrix as a heat map.\<close>

definition cell5 ::
  "('v, 'x, 'p) library \<Rightarrow> series \<Rightarrow> string list \<Rightarrow> (float option \<times> nat list list) py" where
  "cell5 L y_test y_pred =
    andthen (lib L Accuracy_score (accuracy_score (map snd y_test) y_pred)) (\<lambda>accuracy.
    andthen (print L [Str ''Accuracy: '', Fixed2 accuracy]) (\<lambda>_.
    andthen (print L [Str (CHR 0x0A # ''Classification Report:'')]) (\<lambda>_.
    andthen (lib L Classification_report
               (classification_report L (map snd y_test) y_pred [''ham'', ''spam''])) (\<lambda>report.
    andthen (print L [Str report]) (\<lambda>_.
    andthen (lib L Confusion_matrix (confusion_matrix (map snd y_test) y_pred)) (\<lambda>cm.
    andthen (plt_figure L (6, 4)) (\<lambda>_.
    andthen (sns_heatmap L cm True ''d'' ''Blues'' [''ham'', ''spam''] [''ham'', ''spam'']) (\<lambda>_.
    andthen (plt_title L ''Confusion Matrix'') (\<lambda>_.
    andthen (plt_xlabel L ''Predicted'') (\<lambda>_.
    andthen (plt_ylabel L ''Actual'') (\<lambda>_.
    andthen (plt_show L) (\<lambda>_.
    ret (accuracy, cm)))))))))))))"

text \<open>Cell 6: three new emails through the fitted vectorizer and the fitted classifier.\<close>

definition new_emails :: "string list" where
  "new_emails =
    [''win cash now click this link'',
     ''team meeting at 3pm'',
     ''urgent offer expires soon'']"

definition print_prediction ::
  "('v, 'x, 'p) library \<Rightarrow> string \<times> string \<Rightarrow> unit py" where
  "print_prediction L ep =
    print L [Str (''Email: '' @ [CHR 0x27]), Str (fst ep), Str (CHR 0x27 # '' -> Predicted: ''),
           Str (snd ep)]"

definition cell6 ::
  "('v, 'x, 'p) library \<Rightarrow> 'v tfidf_vectorizer \<Rightarrow> 'p multinomial_nb
    \<Rightarrow> ('x matrix \<times> string list) py" where
  "cell6 L tfidf model =
    andthen (lib L Transform (transform L tfidf new_emails)) (\<lambda>new_emails_tfidf.
    andthen (lib L Predict (predict L model new_emails_tfidf)) (\<lambda>new_predictions.
    andthen (for_each (print_prediction L) (zip new_emails new_predictions)) (\<lambda>_.
    ret (new_emails_tfidf, new_predictions))))"

text \<open>The variables a completed run has bound, and the run of all cells from a fresh kernel.\<close>

record ('v, 'x, 'p) globals =
  v_df :: dataframe
  v_X :: series
  v_y :: series
  v_X_train :: series
  v_X_test :: series
  v_y_train :: series
  v_y_test :: series
  v_tfidf :: "'v tfidf_vectorizer"
  v_X_train_tfidf :: "'x matrix"
  v_X_test_tfidf :: "'x matrix"
  v_model :: "'p multinomial_nb"
  v_y_pred :: "string list"
  v_accuracy :: "float option"
  v_cm :: "nat list list"
  v_new_emails_tfidf :: "'x matrix"
  v_new_predictions :: "string list"

definition notebook :: "('v, 'x, 'p) library \<Rightarrow> ('v, 'x, 'p) globals py" where
  "notebook L =
    andthen (cell1 L) (\<lambda>_.
    andthen (cell2 L) (\<lambda>df.
    andthen (cell3 L df)
      (\<lambda>(X, y, X_train, X_test, y_train, y_test, tfidf, X_train_tfidf, X_test_tfidf).
    andthen (cell4 L X_train_tfidf y_train X_test_tfidf) (\<lambda>(model, y_pred).
    andthen (cell5 L y_test y_pred) (\<lambda>(accuracy, cm).
    andthen (cell6 L tfidf model) (\<lambda>(new_emails_tfidf, new_predictions).
    ret \<lparr>v_df = df, v_X = X, v_y = y, v_X_train = X_train, v_X_test = X_test,
         v_y_train = y_train, v_y_test = y_test, v_tfidf = tfidf,
         v_X_train_tfidf = X_train_tfidf, v_X_test_tfidf = X_test_tfidf,
         v_model = model, v_y_pred = y_pred, v_accuracy = accuracy, v_cm = cm,
         v_new_emails_tfidf = new_emails_tfidf, v_new_predictions = new_predictions\<rparr>))))))"

definition start :: "rng_state \<Rightarrow> world" where
  "start g =
    \<lparr>np_random_state = g, gcf = None, steps = 0, stderr = [], calls = [], effects = []\<rparr>"


section \<open>Values the notebook computes, and what the statements below speak of\<close>

text \<open>
  The frame that \<^verbatim>\<open>pd.DataFrame(data)\<close> builds and its two columns as Series, written
  out (lemmas \<open>DataFrame_data\<close>, \<open>getitem_email\<close> and \<open>getitem_label\<close> prove that
  they are what the definitions above compute).
\<close>

definition df0 :: dataframe where
  "df0 = \<lparr>df_columns = [''email'', ''label''],
      df_index = [0, 1, 2, 3, 4, 5, 6, 7, 8, 9],
      df_rows =
        [[''win a free prize now click here'', ''spam''],
         [''meeting at 10am tomorrow'', ''ham''],
         [''urgent money transfer needed'', ''spam''],
         [''hello how are you today'', ''ham''],
         [''claim your lottery winnings'', ''spam''],
         [''project update for team'', ''ham''],
         [''buy cheap products online now'', ''spam''],
         [''lunch plans this afternoon'', ''ham''],
         [''exclusive offer just for you'', ''spam''],
         [''review the attached document'', ''ham'']]\<rparr>"

definition X0 :: series where
  "X0 = [(0, ''win a free prize now click here''),
         (1, ''meeting at 10am tomorrow''),
         (2, ''urgent money transfer needed''),
         (3, ''hello how are you today''),
         (4, ''claim your lottery winnings''),
         (5, ''project update for team''),
         (6, ''buy cheap products online now''),
         (7, ''lunch plans this afternoon''),
         (8, ''exclusive offer just for you''),
         (9, ''review the attached document'')]"

definition y0 :: series where
  "y0 = [(0, ''spam''), (1, ''ham''), (2, ''spam''), (3, ''ham''), (4, ''spam''),
         (5, ''ham''), (6, ''spam''), (7, ''ham''), (8, ''spam''), (9, ''ham'')]"

text \<open>
  The figure that cell 5 has drawn when it calls \<^verbatim>\<open>plt.show()\<close>, the line that
  \<open>print_prediction\<close> prints, and the library calls of a run that completes, in order.
\<close>

definition confusion_figure :: "nat list list \<Rightarrow> figure" where
  "confusion_figure cm =
    \<lparr>fig_size = (6, 4),
     fig_heatmap = Some \<lparr>hm_data = cm, hm_annot = True, hm_fmt = ''d'', hm_cmap = ''Blues'',
        hm_xticklabels = [''ham'', ''spam''], hm_yticklabels = [''ham'', ''spam'']\<rparr>,
     fig_title = ''Confusion Matrix'', fig_xlabel = ''Predicted'', fig_ylabel = ''Actual''\<rparr>"

definition prediction_line :: "string \<times> string \<Rightarrow> effect" where
  "prediction_line ep =
    Stdout [Str (''Email: '' @ [CHR 0x27]), Str (fst ep), Str (CHR 0x27 # '' -> Predicted: ''),
            Str (snd ep)]"

definition completed_calls :: "(call \<times> exn option) list" where
  "completed_calls = map (\<lambda>c. (c, None))
     [Np_random_seed, Pd_DataFrame, To_csv, Getitem, Getitem, Train_test_split,
      New_TfidfVectorizer, Fit_transform, Transform, New_MultinomialNB, Fit, Predict,
      Accuracy_score, Classification_report, Confusion_matrix, Plt_figure, Sns_heatmap,
      Plt_title, Plt_xlabel, Plt_ylabel, Plt_show, Transform, Predict]"

text \<open>
  The cells after cell 2, for the frame that cell 2 has bound, and the cells after cell 1:
  \<open>notebook L\<close> is \<open>cell1 L\<close> followed by \<open>after_cell1 L\<close> (lemma \<open>notebook_cells\<close>).
\<close>

definition after_cell2 :: "('v, 'x, 'p) library \<Rightarrow> dataframe \<Rightarrow> ('v, 'x, 'p) globals py" where
  "after_cell2 L df =
    andthen (cell3 L df)
      (\<lambda>(X, y, X_train, X_test, y_train, y_test, tfidf, X_train_tfidf, X_test_tfidf).
    andthen (cell4 L X_train_tfidf y_train X_test_tfidf) (\<lambda>(model, y_pred).
    andthen (cell5 L y_test y_pred) (\<lambda>(accuracy, cm).
    andthen (cell6 L tfidf model) (\<lambda>(new_emails_tfidf, new_predictions).
    ret \<lparr>v_df = df, v_X = X, v_y = y, v_X_train = X_train, v_X_test = X_test,
         v_y_train = y_train, v_y_test = y_test, v_tfidf = tfidf,
         v_X_train_tfidf = X_train_tfidf, v_X_test_tfidf = X_test_tfidf,
         v_model = model, v_y_pred = y_pred, v_accuracy = accuracy, v_cm = cm,
         v_new_emails_tfidf = new_emails_tfidf, v_new_predictions = new_predictions\<rparr>))))"

definition after_cell1 :: "('v, 'x, 'p) library \<Rightarrow> ('v, 'x, 'p) globals py" where
  "after_cell1 L = andthen (cell2 L) (after_cell2 L)"


text \<open>
  Three properties of a statement, all kept by sequencing. \<open>tracked\<close>: it only adds to the
  record of calls, and it raises \<open>e\<close> exactly when the last call it added raised \<open>e\<close>, every
  earlier call having returned. \<open>quiet\<close>: it only adds effects, all of them display effects,
  and no call of \<^verbatim>\<open>to_csv\<close> that returned. \<open>ignores_generator\<close>: it neither reads nor
  writes the state of NumPy's global generator.
\<close>

definition returned :: "(call \<times> exn option) list \<Rightarrow> bool" where
  "returned cs = list_all (\<lambda>x. snd x = None) cs"

definition tracked :: "'a py \<Rightarrow> bool" where
  "tracked m =
    (\<forall>w. \<exists>cs. calls (snd (m w)) = calls w @ cs \<and>
       (case fst (m w) of
          Inr _ \<Rightarrow> returned cs
        | Inl e \<Rightarrow> \<exists>c cs0. cs = cs0 @ [(c, Some e)] \<and> returned cs0))"


definition ignores_generator :: "'a py \<Rightarrow> bool" where
  "ignores_generator m =
    (\<forall>w g. m (w\<lparr>np_random_state := g\<rparr>) = (fst (m w), (snd (m w))\<lparr>np_random_state := g\<rparr>))"

text \<open>\<open>precedes a b cs\<close>: \<open>b\<close> occurs in \<open>cs\<close> after the first \<open>a\<close>.\<close>

definition precedes :: "call \<Rightarrow> call \<Rightarrow> call list \<Rightarrow> bool" where
  "precedes a b cs = (b \<in> set (dropWhile (\<lambda>c. c \<noteq> a) cs))"

text \<open>
  Small libraries to run the notebook on. In \<open>stand_in R W\<close> the generator state is the
  seed, the permutation of ten positions under seed 42 is fixed, each distinct training
  document is one term of the vocabulary, and the score of a class is its position in
  \<^verbatim>\<open>classes_\<close>; \<open>R\<close> says which calls raise and \<open>W\<close> what they write on standard error.
  In \<open>L0\<close> no call raises or warns, and \<open>G0\<close> is what the notebook binds when run on it
  (lemma \<open>run0\<close>). In \<open>L2\<close> the call of \<^verbatim>\<open>to_csv\<close> raises, as it does when the path is a
  directory. In \<open>L3\<close> the classification report warns three times, as in the output stored
  with cell 5. \<open>L4\<close> is \<open>L0\<close> with another generator: it permutes as \<open>L0\<close> does from the
  state seeded with 42 and differently from every other state.
\<close>

definition stand_in ::
  "(nat \<Rightarrow> call \<Rightarrow> exn option) \<Rightarrow> (call \<Rightarrow> string list) \<Rightarrow> (string list, nat list, unit) library" where
  "stand_in R W =
    \<lparr>RandomState = (\<lambda>s. s),
     permutation = (\<lambda>rng n. if rng = 42 \<and> n = 10 then [8, 1, 5, 0, 7, 2, 9, 4, 3, 6] else [0..<n]),
     tfidf_learn = (\<lambda>sw mf docs. Inr (remdups docs)),
     tfidf_row = (\<lambda>v d. map (\<lambda>t. if t = d then 1 else 0) v),
     tfidf_width = length,
     nb_learn = (\<lambda>a X y. Inr ()),
     nb_jll = (\<lambda>p x k. of_nat k),
     classification_report = (\<lambda>t p names. Inr ''report''),
     raises = R,
     warns = W\<rparr>"

definition L0 :: "(string list, nat list, unit) library" where
  "L0 = stand_in (\<lambda>k c. None) (\<lambda>c. [])"

definition G0 :: "(string list, nat list, unit) globals" where
  "G0 =
    \<lparr>v_df = df0, v_X = X0, v_y = y0,
     v_X_train =
       [(0, ''win a free prize now click here''),
        (7, ''lunch plans this afternoon''),
        (2, ''urgent money transfer needed''),
        (9, ''review the attached document''),
        (4, ''claim your lottery winnings''),
        (3, ''hello how are you today''),
        (6, ''buy cheap products online now'')],
     v_X_test =
       [(8, ''exclusive offer just for you''),
        (1, ''meeting at 10am tomorrow''),
        (5, ''project update for team'')],
     v_y_train =
       [(0, ''spam''), (7, ''ham''), (2, ''spam''), (9, ''ham''), (4, ''spam''), (3, ''ham''),
        (6, ''spam'')],
     v_y_test = [(8, ''spam''), (1, ''ham''), (5, ''ham'')],
     v_tfidf =
       \<lparr>stop_words = Some ''english'', max_features = Some 100,
        vocabulary =
          Some [''win a free prize now click here'',
                ''lunch plans this afternoon'',
                ''urgent money transfer needed'',
                ''review the attached document'',
                ''claim your lottery winnings'',
                ''hello how are you today'',
                ''buy cheap products online now'']\<rparr>,
     v_X_train_tfidf =
       \<lparr>ncols = 7,
        mrows =
          [[1, 0, 0, 0, 0, 0, 0], [0, 1, 0, 0, 0, 0, 0], [0, 0, 1, 0, 0, 0, 0],
           [0, 0, 0, 1, 0, 0, 0], [0, 0, 0, 0, 1, 0, 0], [0, 0, 0, 0, 0, 1, 0],
           [0, 0, 0, 0, 0, 0, 1]]\<rparr>,
     v_X_test_tfidf =
       \<lparr>ncols = 7,
        mrows = [[0, 0, 0, 0, 0, 0, 0], [0, 0, 0, 0, 0, 0, 0], [0, 0, 0, 0, 0, 0, 0]]\<rparr>,
     v_model = \<lparr>alpha = 1, fitted = Some ([''ham'', ''spam''], 7, ())\<rparr>,
     v_y_pred = [''spam'', ''spam'', ''spam''],
     v_accuracy = Some (6004799503160661 / 18014398509481984),
     v_cm = [[0, 2], [0, 1]],
     v_new_emails_tfidf =
       \<lparr>ncols = 7,
        mrows = [[0, 0, 0, 0, 0, 0, 0], [0, 0, 0, 0, 0, 0, 0], [0, 0, 0, 0, 0, 0, 0]]\<rparr>,
     v_new_predictions = [''spam'', ''spam'', ''spam'']\<rparr>"

definition L2 :: "(string list, nat list, unit) library" where
  "L2 = stand_in
     (\<lambda>k c. if c = To_csv then Some (OSError ''[Errno 21] Is a directory: spam_email_data.csv'')
            else None)
     (\<lambda>c. [])"


definition L4 :: "(string list, nat list, unit) library" where
  "L4 = L0\<lparr>permutation :=
      (\<lambda>rng n. if rng = 42 \<and> n = 10 then [8, 1, 5, 0, 7, 2, 9, 4, 3, 6] else rev [0..<n])\<rparr>"


section \<open>Lemmas\<close>

subsection \<open>The dataset and the cells, one by one\<close>

lemma DataFrame_data: "DataFrame data = Inr df0"
  by (simp add: DataFrame_def data_def upt_rec df0_def)


lemma getitem_email: "getitem df0 ''email'' = Inr X0"
  by (simp add: getitem_def df0_def X0_def)

lemma getitem_label: "getitem df0 ''label'' = Inr y0"
  by (simp add: getitem_def df0_def y0_def)

lemma test_size_range: "0 < fl (3 / 10) \<and> fl (3 / 10) < 1"
  by code_simp

lemma train_test_split_seeded:
  "train_test_split L g X y ts (Some s) = train_test_split L g' X y ts (Some s)"
  by (simp add: train_test_split_def check_random_state_def Let_def)

lemma andthen_Inr_iff:
  "andthen m f w = (Inr b, w2) \<longleftrightarrow> (\<exists>a w1. m w = (Inr a, w1) \<and> f a w1 = (Inr b, w2))"
  by (auto simp: andthen_def split: prod.splits sum.splits)

lemma ret_iff: "ret a w = (r, w') \<longleftrightarrow> r = Inr a \<and> w' = w"
  by (auto simp: ret_def)

lemma bindE_Inr_iff: "bindE r f = Inr b \<longleftrightarrow> (\<exists>a. r = Inr a \<and> f a = Inr b)"
  by (cases r) (simp_all add: bindE_def)

lemma fit_transform_Inr_iff:
  "fit_transform L t docs = Inr (t', M) \<longleftrightarrow>
     (\<exists>v. tfidf_learn L (stop_words t) (max_features t) docs = Inr v \<and>
          t' = t\<lparr>vocabulary := Some v\<rparr> \<and> M = transform_with L v docs)"
  by (auto simp: fit_transform_def bindE_Inr_iff)

lemma notebook_cells: "notebook L = andthen (cell1 L) (\<lambda>_. after_cell1 L)"
  unfolding notebook_def after_cell1_def after_cell2_def[abs_def] by (rule refl)

lemma modify_iff: "modify f w = (r, w') \<longleftrightarrow> r = Inr () \<and> w' = f w"
  by (auto simp: modify_def)

lemma lib_Inr_iff:
  "lib L c r w = (Inr a, w') \<longleftrightarrow>
     raises L (steps w) c = None \<and> r = Inr a \<and>
     w' = w\<lparr>steps := Suc (steps w), stderr := stderr w @ warns L c,
            calls := calls w @ [(c, None)]\<rparr>"
  by (auto simp: lib_def Let_def split: option.splits)

lemma print_Inr_iff:
  "print L vs w = (Inr u, w') \<longleftrightarrow>
     raises L (steps w) Print = None \<and>
     w' = w\<lparr>steps := Suc (steps w), effects := effects w @ [Stdout vs]\<rparr>"
  by (auto simp: print_def Let_def split: option.splits)

lemmas run_iffs = andthen_Inr_iff lib_Inr_iff print_Inr_iff ret_iff modify_iff

lemma cell1_Inr:
  assumes "cell1 L w = (Inr u, w')"
  shows "np_random_state w' = RandomState L 42 \<and> gcf w' = gcf w \<and>
     stderr w' = stderr w @ warns L Np_random_seed \<and>
     calls w' = calls w @ [(Np_random_seed, None)] \<and> effects w' = effects w"
  using assms unfolding cell1_def np_random_seed_def by (auto simp: run_iffs)

lemma cell2_Inr:
  assumes "cell2 L w = (Inr df, w')"
  shows "df = df0 \<and> np_random_state w' = np_random_state w \<and> gcf w' = gcf w \<and>
     stderr w' = stderr w @ warns L Pd_DataFrame @ warns L To_csv \<and>
     calls w' = calls w @ [(Pd_DataFrame, None), (To_csv, None)] \<and>
     effects w' = effects w @ [Stdout [Str ''Sample Dataset:''], Stdout [Frame df0],
              FileWrite ''spam_email_data.csv'' (to_csv_lines df0)]"
  using assms unfolding cell2_def to_csv_def
  by (auto simp: run_iffs DataFrame_data)

lemma cell3_Inr:
  assumes "cell3 L df0 w = (Inr R, w')"
  shows "\<exists>Xtr Xte ytr yte v.
     train_test_split L (RandomState L 42) X0 y0 (fl (3 / 10)) (Some 42) = Inr (Xtr, Xte, ytr, yte) \<and>
     tfidf_learn L (Some ''english'') (Some 100) (map snd Xtr) = Inr v \<and>
     R = (X0, y0, Xtr, Xte, ytr, yte,
          \<lparr>stop_words = Some ''english'', max_features = Some 100, vocabulary = Some v\<rparr>,
          transform_with L v (map snd Xtr), transform_with L v (map snd Xte)) \<and>
     np_random_state w' = np_random_state w \<and> gcf w' = gcf w \<and>
     stderr w' = stderr w @ warns L Getitem @ warns L Getitem @ warns L Train_test_split @
        warns L New_TfidfVectorizer @ warns L Fit_transform @ warns L Transform \<and>
     calls w' = calls w @ [(Getitem, None), (Getitem, None), (Train_test_split, None),
               (New_TfidfVectorizer, None), (Fit_transform, None), (Transform, None)] \<and>
     effects w' = effects w @
              [Stdout [Str ''Training data shape: '', Shape (shape (transform_with L v (map snd Xtr)))],
               Stdout [Str ''Testing data shape: '', Shape (shape (transform_with L v (map snd Xte)))]]"
proof -
  have seeded: "train_test_split L g X0 y0 (fl (3 / 10)) (Some 42) =
      train_test_split L (RandomState L 42) X0 y0 (fl (3 / 10)) (Some 42)" for g
    by (rule train_test_split_seeded)
  from assms show ?thesis
    unfolding cell3_def
    by (auto simp: run_iffs getitem_email getitem_label fit_transform_Inr_iff transform_def
        TfidfVectorizer_def seeded[of "np_random_state w"])
qed

lemma cell4_Inr:
  assumes "cell4 L M ytr N w = (Inr R, w')"
  shows "\<exists>model yp.
     fit L MultinomialNB M (map snd ytr) = Inr model \<and>
     predict L model N = Inr yp \<and>
     R = (model, yp) \<and>
     np_random_state w' = np_random_state w \<and> gcf w' = gcf w \<and>
     stderr w' = stderr w @ warns L New_MultinomialNB @ warns L Fit @ warns L Predict \<and>
     calls w' = calls w @ [(New_MultinomialNB, None), (Fit, None), (Predict, None)] \<and>
     effects w' = effects w @ [Stdout [Str ''Predictions on test set:'', Labels yp]]"
  using assms unfolding cell4_def
  by (auto simp: run_iffs)

lemma cell5_Inr:
  assumes "cell5 L yte yp w = (Inr R, w')"
  shows "\<exists>acc rep cm.
     accuracy_score (map snd yte) yp = Inr acc \<and>
     classification_report L (map snd yte) yp [''ham'', ''spam''] = Inr rep \<and>
     confusion_matrix (map snd yte) yp = Inr cm \<and>
     R = (acc, cm) \<and>
     np_random_state w' = np_random_state w \<and> gcf w' = None \<and>
     stderr w' = stderr w @ warns L Accuracy_score @ warns L Classification_report @
        warns L Confusion_matrix @ warns L Plt_figure @ warns L Sns_heatmap @
        warns L Plt_title @ warns L Plt_xlabel @ warns L Plt_ylabel @ warns L Plt_show \<and>
     calls w' = calls w @ [(Accuracy_score, None), (Classification_report, None),
               (Confusion_matrix, None), (Plt_figure, None), (Sns_heatmap, None),
               (Plt_title, None), (Plt_xlabel, None), (Plt_ylabel, None), (Plt_show, None)] \<and>
     effects w' = effects w @
              [Stdout [Str ''Accuracy: '', Fixed2 acc],
               Stdout [Str (CHR 0x0A # ''Classification Report:'')],
               Stdout [Str rep],
               Display (confusion_figure cm)]"
  using assms unfolding cell5_def
  by (auto simp: run_iffs draw_def plt_show_def
      plt_figure_def sns_heatmap_def plt_title_def plt_xlabel_def plt_ylabel_def
      current_figure_def new_figure_def confusion_figure_def)

lemma for_each_print_prediction_Inr:
  "for_each (print_prediction L) xs w = (Inr u, w') \<Longrightarrow>
     np_random_state w' = np_random_state w \<and> gcf w' = gcf w \<and> stderr w' = stderr w \<and>
     calls w' = calls w \<and> effects w' = effects w @ map prediction_line xs"
proof (induction xs arbitrary: w)
  case Nil
  then show ?case by (simp add: ret_def)
next
  case (Cons x xs)
  from Cons.prems obtain w1 where
    p: "print_prediction L x w = (Inr (), w1)" and r: "for_each (print_prediction L) xs w1 = (Inr u, w')"
    by (auto simp: andthen_Inr_iff)
  from p have w1: "w1 = w\<lparr>steps := Suc (steps w), effects := effects w @ [prediction_line x]\<rparr>"
    by (simp add: print_prediction_def print_Inr_iff prediction_line_def)
  from Cons.IH[OF r] show ?case by (simp add: w1)
qed

lemma cell6_Inr:
  assumes "cell6 L t model w = (Inr R, w')"
  shows "\<exists>v np.
     vocabulary t = Some v \<and>
     predict L model (transform_with L v new_emails) = Inr np \<and>
     R = (transform_with L v new_emails, np) \<and>
     np_random_state w' = np_random_state w \<and> gcf w' = gcf w \<and>
     stderr w' = stderr w @ warns L Transform @ warns L Predict \<and>
     calls w' = calls w @ [(Transform, None), (Predict, None)] \<and>
     effects w' = effects w @ map prediction_line (zip new_emails np)"
proof -
  from assms obtain M w1 np w2 u where
    t: "lib L Transform (transform L t new_emails) w = (Inr M, w1)" and
    p: "lib L Predict (predict L model M) w1 = (Inr np, w2)" and
    f: "for_each (print_prediction L) (zip new_emails np) w2 = (Inr u, w')" and
    R: "R = (M, np)"
    unfolding cell6_def by (auto simp: andthen_Inr_iff ret_iff)
  from t obtain v where v: "vocabulary t = Some v" and M: "M = transform_with L v new_emails"
    and w1: "w1 = w\<lparr>steps := Suc (steps w), stderr := stderr w @ warns L Transform,
            calls := calls w @ [(Transform, None)]\<rparr>"
    by (auto simp: lib_Inr_iff transform_def split: option.splits)
  from p have pr: "predict L model M = Inr np"
    and w2: "w2 = w1\<lparr>steps := Suc (steps w1), stderr := stderr w1 @ warns L Predict,
            calls := calls w1 @ [(Predict, None)]\<rparr>"
    by (auto simp: lib_Inr_iff)
  from for_each_print_prediction_Inr[OF f] v pr R show ?thesis
    by (simp add: M w1 w2)
qed

lemma notebook_Inr:
  assumes "notebook L (start g) = (Inr G, w)"
  shows "\<exists>v rep.
     v_df G = df0 \<and> v_X G = X0 \<and> v_y G = y0 \<and>
     train_test_split L (RandomState L 42) X0 y0 (fl (3 / 10)) (Some 42) =
       Inr (v_X_train G, v_X_test G, v_y_train G, v_y_test G) \<and>
     tfidf_learn L (Some ''english'') (Some 100) (map snd (v_X_train G)) = Inr v \<and>
     v_tfidf G = \<lparr>stop_words = Some ''english'', max_features = Some 100, vocabulary = Some v\<rparr> \<and>
     v_X_train_tfidf G = transform_with L v (map snd (v_X_train G)) \<and>
     v_X_test_tfidf G = transform_with L v (map snd (v_X_test G)) \<and>
     fit L MultinomialNB (v_X_train_tfidf G) (map snd (v_y_train G)) = Inr (v_model G) \<and>
     predict L (v_model G) (v_X_test_tfidf G) = Inr (v_y_pred G) \<and>
     accuracy_score (map snd (v_y_test G)) (v_y_pred G) = Inr (v_accuracy G) \<and>
     classification_report L (map snd (v_y_test G)) (v_y_pred G) [''ham'', ''spam''] = Inr rep \<and>
     confusion_matrix (map snd (v_y_test G)) (v_y_pred G) = Inr (v_cm G) \<and>
     v_new_emails_tfidf G = transform_with L v new_emails \<and>
     predict L (v_model G) (v_new_emails_tfidf G) = Inr (v_new_predictions G) \<and>
     np_random_state w = RandomState L 42 \<and>
     gcf w = None \<and>
     stderr w = concat (map (\<lambda>c. warns L (fst c)) completed_calls) \<and>
     calls w = completed_calls \<and>
     effects w =
       [Stdout [Str ''Sample Dataset:''], Stdout [Frame df0],
        FileWrite ''spam_email_data.csv'' (to_csv_lines df0),
        Stdout [Str ''Training data shape: '', Shape (shape (v_X_train_tfidf G))],
        Stdout [Str ''Testing data shape: '', Shape (shape (v_X_test_tfidf G))],
        Stdout [Str ''Predictions on test set:'', Labels (v_y_pred G)],
        Stdout [Str ''Accuracy: '', Fixed2 (v_accuracy G)],
        Stdout [Str (CHR 0x0A # ''Classification Report:'')],
        Stdout [Str rep],
        Display (confusion_figure (v_cm G))]
       @ map prediction_line (zip new_emails (v_new_predictions G))"
proof -
  from assms obtain u w1 df w2 R3 w3 R4 w4 R5 w5 R6 where
    c1: "cell1 L (start g) = (Inr u, w1)" and
    c2: "cell2 L w1 = (Inr df, w2)" and
    c3: "cell3 L df w2 = (Inr R3, w3)" and
    c4: "cell4 L (fst (snd (snd (snd (snd (snd (snd (snd R3)))))))) (fst (snd (snd (snd (snd R3)))))
           (snd (snd (snd (snd (snd (snd (snd (snd R3)))))))) w3 = (Inr R4, w4)" and
    c5: "cell5 L (fst (snd (snd (snd (snd (snd R3)))))) (snd R4) w4 = (Inr R5, w5)" and
    c6: "cell6 L (fst (snd (snd (snd (snd (snd (snd R3))))))) (fst R4) w5 = (Inr R6, w)" and
    G: "G = \<lparr>v_df = df, v_X = fst R3, v_y = fst (snd R3), v_X_train = fst (snd (snd R3)),
         v_X_test = fst (snd (snd (snd R3))),
         v_y_train = fst (snd (snd (snd (snd R3)))), v_y_test = fst (snd (snd (snd (snd (snd R3))))),
         v_tfidf = fst (snd (snd (snd (snd (snd (snd R3)))))),
         v_X_train_tfidf = fst (snd (snd (snd (snd (snd (snd (snd R3))))))),
         v_X_test_tfidf = snd (snd (snd (snd (snd (snd (snd (snd R3))))))),
         v_model = fst R4, v_y_pred = snd R4, v_accuracy = fst R5, v_cm = snd R5,
         v_new_emails_tfidf = fst R6, v_new_predictions = snd R6\<rparr>"
    unfolding notebook_def
    by (auto simp: andthen_Inr_iff ret_iff split: prod.splits)
  from cell2_Inr[OF c2] have df: "df = df0" by simp
  have s0: "np_random_state (start g) = g" "gcf (start g) = None" "stderr (start g) = []"
    "calls (start g) = []" "effects (start g) = []"
    by (simp_all add: start_def)
  from cell1_Inr[OF c1] cell2_Inr[OF c2] cell3_Inr[OF c3[unfolded df]] cell4_Inr[OF c4]
    cell5_Inr[OF c5] cell6_Inr[OF c6]
  show ?thesis
    unfolding G df completed_calls_def s0
    by auto
qed

subsection \<open>Exceptions and the record of library calls\<close>

lemma returned_append: "returned (cs @ ds) \<longleftrightarrow> returned cs \<and> returned ds"
  by (simp add: returned_def)

lemma tracked_ret: "tracked (ret a)"
  by (simp add: tracked_def ret_def returned_def)

lemma tracked_modify: "(\<And>w. calls (f w) = calls w) \<Longrightarrow> tracked (modify f)"
  by (simp add: tracked_def modify_def returned_def)

lemma tracked_lib_w: "tracked (\<lambda>w. lib L c (F w) w)"
  unfolding tracked_def
proof
  fix w
  show "\<exists>cs. calls (snd (lib L c (F w) w)) = calls w @ cs \<and>
       (case fst (lib L c (F w) w) of
          Inr _ \<Rightarrow> returned cs
        | Inl e \<Rightarrow> \<exists>c cs0. cs = cs0 @ [(c, Some e)] \<and> returned cs0)"
  proof (cases "raises L (steps w) c")
    case None
    then show ?thesis by (cases "F w") (simp_all add: lib_def Let_def returned_def)
  next
    case (Some e)
    then show ?thesis by (simp add: lib_def Let_def returned_def)
  qed
qed

lemma tracked_lib: "tracked (lib L c r)"
  using tracked_lib_w[of L c "\<lambda>_. r"] by simp

lemma tracked_print: "tracked (print L vs)"
  unfolding tracked_def
proof
  fix w
  show "\<exists>cs. calls (snd (print L vs w)) = calls w @ cs \<and>
       (case fst (print L vs w) of
          Inr _ \<Rightarrow> returned cs
        | Inl e \<Rightarrow> \<exists>c cs0. cs = cs0 @ [(c, Some e)] \<and> returned cs0)"
    by (cases "raises L (steps w) Print") (simp_all add: print_def Let_def returned_def)
qed

lemma tracked_andthen:
  assumes "tracked m" and "\<And>a. tracked (f a)"
  shows "tracked (andthen m f)"
  unfolding tracked_def
proof
  fix w
  from assms(1) obtain cs where cs: "calls (snd (m w)) = calls w @ cs"
    "case fst (m w) of Inr _ \<Rightarrow> returned cs
     | Inl e \<Rightarrow> \<exists>c cs0. cs = cs0 @ [(c, Some e)] \<and> returned cs0"
    unfolding tracked_def by blast
  show "\<exists>cs. calls (snd (andthen m f w)) = calls w @ cs \<and>
       (case fst (andthen m f w) of
          Inr _ \<Rightarrow> returned cs
        | Inl e \<Rightarrow> \<exists>c cs0. cs = cs0 @ [(c, Some e)] \<and> returned cs0)"
  proof (cases "m w")
    case (Pair r w1)
    show ?thesis
    proof (cases r)
      case (Inl e)
      with Pair cs show ?thesis by (auto simp: andthen_def)
    next
      case (Inr a)
      from assms(2)[of a] obtain ds where ds: "calls (snd (f a w1)) = calls w1 @ ds"
        "case fst (f a w1) of Inr _ \<Rightarrow> returned ds
         | Inl e \<Rightarrow> \<exists>c cs0. ds = cs0 @ [(c, Some e)] \<and> returned cs0"
        unfolding tracked_def by blast
      from Pair Inr cs have rc: "returned cs" and c1: "calls w1 = calls w @ cs" by simp_all
      have eq: "andthen m f w = f a w1" using Pair Inr by (simp add: andthen_def)
      have "calls (snd (andthen m f w)) = calls w @ (cs @ ds)"
        using eq ds(1) c1 by simp
      moreover have "case fst (andthen m f w) of Inr _ \<Rightarrow> returned (cs @ ds)
         | Inl e \<Rightarrow> \<exists>c cs0. cs @ ds = cs0 @ [(c, Some e)] \<and> returned cs0"
      proof (cases "fst (f a w1)")
        case (Inl e)
        with ds(2) obtain c cs0 where "ds = cs0 @ [(c, Some e)]" "returned cs0" by auto
        with rc have "cs @ ds = (cs @ cs0) @ [(c, Some e)] \<and> returned (cs @ cs0)"
          by (simp add: returned_append)
        with Inl eq show ?thesis by (simp del: append_assoc)
      next
        case (Inr b)
        with ds(2) rc eq show ?thesis by (simp add: returned_append)
      qed
      ultimately show ?thesis by blast
    qed
  qed
qed

lemma tracked_case_prod:
  assumes "\<And>a b. tracked (f a b)"
  shows "tracked (case_prod f p)"
  using assms by (cases p) simp

lemma tracked_for_each:
  assumes "\<And>x. tracked (body x)"
  shows "tracked (for_each body xs)"
  by (induction xs) (auto intro!: tracked_ret tracked_andthen assms)

lemmas tracked_intros =
  tracked_andthen tracked_case_prod tracked_ret tracked_lib tracked_lib_w tracked_print
  tracked_modify tracked_for_each

lemma tracked_notebook: "tracked (notebook L)"
  unfolding notebook_def cell1_def cell2_def cell3_def cell4_def cell5_def cell6_def
    np_random_seed_def to_csv_def draw_def plt_show_def
    plt_figure_def sns_heatmap_def plt_title_def plt_xlabel_def plt_ylabel_def
    print_prediction_def
  by (intro tracked_intros) simp_all

lemma exceptions_propagate:
  assumes "notebook L (start g) = (r, w)"
  shows "(case r of
            Inl e \<Rightarrow> \<exists>c cs. calls w = cs @ [(c, Some e)] \<and> returned cs
          | Inr G \<Rightarrow> returned (calls w))"
proof -
  from tracked_notebook[of L]
  have "\<exists>cs. calls (snd (notebook L (start g))) = calls (start g) @ cs \<and>
       (case fst (notebook L (start g)) of
          Inr _ \<Rightarrow> returned cs
        | Inl e \<Rightarrow> \<exists>c cs0. cs = cs0 @ [(c, Some e)] \<and> returned cs0)"
    unfolding tracked_def by (rule spec)
  with assms show ?thesis by (simp add: start_def)
qed

lemma raised_is_result:
  assumes "notebook L (start g) = (r, w)" and "(c, Some e) \<in> set (calls w)"
  shows "r = Inl e"
proof (cases r)
  case (Inl e')
  with exceptions_propagate[OF assms(1)] obtain c' cs where
    "calls w = cs @ [(c', Some e')]" "returned cs" by auto
  with assms(2) have "e = e'" by (auto simp: returned_def list_all_iff)
  with Inl show ?thesis by simp
next
  case (Inr G)
  with exceptions_propagate[OF assms(1)] have "returned (calls w)" by simp
  with assms(2) show ?thesis by (auto simp: returned_def list_all_iff)
qed

subsection \<open>The effects of a run\<close>














subsection \<open>The global generator\<close>

lemma ignores_generator_ret: "ignores_generator (ret a)"
  by (simp add: ignores_generator_def ret_def)

lemma ignores_generator_modify:
  "(\<And>w g. f (w\<lparr>np_random_state := g\<rparr>) = (f w)\<lparr>np_random_state := g\<rparr>) \<Longrightarrow>
     ignores_generator (modify f)"
  by (simp add: ignores_generator_def modify_def)

lemma ignores_generator_lib_w:
  assumes "\<And>w g. F (w\<lparr>np_random_state := g\<rparr>) = F w"
  shows "ignores_generator (\<lambda>w. lib L c (F w) w)"
  unfolding ignores_generator_def
proof (intro allI)
  fix w g
  show "lib L c (F (w\<lparr>np_random_state := g\<rparr>)) (w\<lparr>np_random_state := g\<rparr>) =
      (fst (lib L c (F w) w), (snd (lib L c (F w) w))\<lparr>np_random_state := g\<rparr>)"
    unfolding assms
    by (cases "raises L (steps w) c") (simp_all add: lib_def Let_def)
qed

lemma ignores_generator_lib: "ignores_generator (lib L c r)"
  using ignores_generator_lib_w[of "\<lambda>_. r" L c] by simp

lemma ignores_generator_split:
  "ignores_generator (\<lambda>w. lib L c (train_test_split L (np_random_state w) X y ts (Some s)) w)"
proof (rule ignores_generator_lib_w)
  fix w g
  show "train_test_split L (np_random_state (w\<lparr>np_random_state := g\<rparr>)) X y ts (Some s) =
      train_test_split L (np_random_state w) X y ts (Some s)"
    by (rule train_test_split_seeded)
qed

lemma ignores_generator_print: "ignores_generator (print L vs)"
  unfolding ignores_generator_def
proof (intro allI)
  fix w g
  show "print L vs (w\<lparr>np_random_state := g\<rparr>) =
      (fst (print L vs w), (snd (print L vs w))\<lparr>np_random_state := g\<rparr>)"
    by (cases "raises L (steps w) Print") (simp_all add: print_def Let_def)
qed

lemma ignores_generator_andthen:
  assumes "ignores_generator m" and "\<And>a. ignores_generator (f a)"
  shows "ignores_generator (andthen m f)"
  unfolding ignores_generator_def
proof (intro allI)
  fix w g
  from assms(1) have m: "m (w\<lparr>np_random_state := g\<rparr>) = (fst (m w), (snd (m w))\<lparr>np_random_state := g\<rparr>)"
    unfolding ignores_generator_def by blast
  show "andthen m f (w\<lparr>np_random_state := g\<rparr>) =
      (fst (andthen m f w), (snd (andthen m f w))\<lparr>np_random_state := g\<rparr>)"
  proof (cases "m w")
    case (Pair r w1)
    show ?thesis
    proof (cases r)
      case (Inl e)
      with Pair m show ?thesis by (simp add: andthen_def)
    next
      case (Inr a)
      from assms(2)[of a] have "f a (w1\<lparr>np_random_state := g\<rparr>) =
          (fst (f a w1), (snd (f a w1))\<lparr>np_random_state := g\<rparr>)"
        unfolding ignores_generator_def by blast
      with Pair Inr m show ?thesis by (simp add: andthen_def)
    qed
  qed
qed

lemma ignores_generator_case_prod:
  assumes "\<And>a b. ignores_generator (f a b)"
  shows "ignores_generator (case_prod f p)"
  using assms by (cases p) simp

lemma ignores_generator_for_each:
  assumes "\<And>x. ignores_generator (body x)"
  shows "ignores_generator (for_each body xs)"
  by (induction xs) (auto intro!: ignores_generator_ret ignores_generator_andthen assms)

lemmas ignores_generator_intros =
  ignores_generator_andthen ignores_generator_case_prod ignores_generator_ret
  ignores_generator_lib ignores_generator_split ignores_generator_print
  ignores_generator_modify ignores_generator_for_each

lemma ignores_generator_after_cell1: "ignores_generator (after_cell1 L)"
  unfolding after_cell1_def after_cell2_def[abs_def] cell2_def cell3_def cell4_def cell5_def
    cell6_def to_csv_def draw_def plt_show_def
    plt_figure_def sns_heatmap_def plt_title_def plt_xlabel_def plt_ylabel_def
    print_prediction_def
  by (intro ignores_generator_intros) (simp_all add: current_figure_def)

lemma cell1_start:
  "raises L 0 Np_random_seed = None \<Longrightarrow>
     cell1 L (start g) =
       (Inr (), \<lparr>np_random_state = RandomState L 42, gcf = None, steps = Suc 0,
                 stderr = warns L Np_random_seed, calls = [(Np_random_seed, None)],
                 effects = []\<rparr>)"
  "raises L 0 Np_random_seed = Some e \<Longrightarrow>
     cell1 L (start g) =
       (Inl e, \<lparr>np_random_state = g, gcf = None, steps = Suc 0,
                 stderr = warns L Np_random_seed, calls = [(Np_random_seed, Some e)],
                 effects = []\<rparr>)"
  by (simp_all add: cell1_def np_random_seed_def andthen_def lib_def modify_def Let_def start_def)

lemma andthen_cong_Inr:
  assumes "\<And>a w w'. m w = (Inr a, w') \<Longrightarrow> f a w' = f' a w'"
  shows "andthen m f = andthen m f'"
proof
  fix w show "andthen m f w = andthen m f' w"
    using assms[of w] by (cases "m w") (auto simp: andthen_def split: sum.splits)
qed

lemma lib_permutation: "lib (L\<lparr>permutation := p\<rparr>) = lib L"
  by (intro ext) (simp add: lib_def)

lemma print_permutation: "print (L\<lparr>permutation := p\<rparr>) = print L"
  by (intro ext) (simp add: print_def)

lemmas branch_congs = if_cong option.case_cong prod.case_cong sum.case_cong

lemma transform_with_permutation: "transform_with (L\<lparr>permutation := p\<rparr>) = transform_with L"
  by (intro ext) (simp add: transform_with_def)

lemma fit_transform_permutation: "fit_transform (L\<lparr>permutation := p\<rparr>) = fit_transform L"
  by (intro ext) (simp add: fit_transform_def transform_with_permutation cong: branch_congs)

lemma transform_permutation: "transform (L\<lparr>permutation := p\<rparr>) = transform L"
  by (intro ext) (simp add: transform_def transform_with_permutation cong: branch_congs)

lemma fit_permutation: "fit (L\<lparr>permutation := p\<rparr>) = fit L"
  by (intro ext) (simp add: fit_def cong: branch_congs)

lemma predict_permutation: "predict (L\<lparr>permutation := p\<rparr>) = predict L"
  by (intro ext) (simp add: predict_def cong: branch_congs)

lemma cell1_permutation: "cell1 (L\<lparr>permutation := p\<rparr>) = cell1 L"
  by (simp add: cell1_def np_random_seed_def lib_permutation)

lemma cell2_permutation: "cell2 (L\<lparr>permutation := p\<rparr>) = cell2 L"
  by (simp add: cell2_def to_csv_def lib_permutation print_permutation)

lemma split_permutation:
  assumes "p (RandomState L 42) 10 = permutation L (RandomState L 42) 10"
  shows "train_test_split (L\<lparr>permutation := p\<rparr>) g X0 y0 ts (Some 42) =
         train_test_split L g X0 y0 ts (Some 42)"
proof -
  have "length X0 = 10" by (simp add: X0_def)
  then show ?thesis using assms
    by (simp add: train_test_split_def check_random_state_def Let_def)
qed

lemma cell3_permutation:
  assumes "p (RandomState L 42) 10 = permutation L (RandomState L 42) 10"
  shows "cell3 (L\<lparr>permutation := p\<rparr>) df0 = cell3 L df0"
proof -
  have a: "andthen (lib L Getitem (Inr X0)) f = andthen (lib L Getitem (Inr X0)) f'"
    if "f X0 = f' X0" for f f' :: "series \<Rightarrow> 'z py"
    using that by (intro andthen_cong_Inr) (auto simp: lib_Inr_iff)
  have b: "andthen (lib L Getitem (Inr y0)) f = andthen (lib L Getitem (Inr y0)) f'"
    if "f y0 = f' y0" for f f' :: "series \<Rightarrow> 'z py"
    using that by (intro andthen_cong_Inr) (auto simp: lib_Inr_iff)
  note s = split_permutation[of p L, OF assms]
  show ?thesis
    unfolding cell3_def lib_permutation print_permutation getitem_email getitem_label
      fit_transform_permutation transform_permutation
    by (intro a b) (simp add: s)
qed

lemma cell4_permutation: "cell4 (L\<lparr>permutation := p\<rparr>) = cell4 L"
  by (intro ext)
     (simp add: cell4_def lib_permutation print_permutation fit_permutation predict_permutation)

lemma cell5_permutation: "cell5 (L\<lparr>permutation := p\<rparr>) = cell5 L"
  by (intro ext)
     (simp add: cell5_def lib_permutation print_permutation plt_figure_def sns_heatmap_def
        plt_title_def plt_xlabel_def plt_ylabel_def plt_show_def draw_def)

lemma cell6_permutation: "cell6 (L\<lparr>permutation := p\<rparr>) = cell6 L"
  by (intro ext)
     (simp add: cell6_def lib_permutation print_permutation transform_permutation
        predict_permutation print_prediction_def[abs_def])

lemma notebook_permutation:
  assumes "p (RandomState L 42) 10 = permutation L (RandomState L 42) 10"
  shows "notebook (L\<lparr>permutation := p\<rparr>) = notebook L"
proof -
  have "after_cell2 (L\<lparr>permutation := p\<rparr>) df0 = after_cell2 L df0"
    by (simp add: after_cell2_def cell3_permutation[of p L, OF assms] cell4_permutation
        cell5_permutation cell6_permutation)
  then have "after_cell1 (L\<lparr>permutation := p\<rparr>) = after_cell1 L"
    unfolding after_cell1_def cell2_permutation
    by (intro andthen_cong_Inr) (auto dest: cell2_Inr)
  then show ?thesis by (simp add: notebook_cells cell1_permutation)
qed

subsection \<open>The classifier\<close>

lemma argmax_from_cases:
  "(argmax_from best k i xs = k \<and> (\<forall>x \<in> set xs. x \<le> best)) \<or>
   (\<exists>j < length xs. argmax_from best k i xs = i + j \<and> best < xs ! j \<and>
      (\<forall>x \<in> set xs. x \<le> xs ! j))"
proof (induction xs arbitrary: best k i)
  case Nil
  then show ?case by simp
next
  case (Cons a xs)
  show ?case
  proof (cases "best < a")
    case True
    from Cons.IH[of a i "Suc i"] show ?thesis
    proof
      assume "argmax_from a i (Suc i) xs = i \<and> (\<forall>x \<in> set xs. x \<le> a)"
      with True have "argmax_from best k i (a # xs) = i + 0 \<and> best < (a # xs) ! 0 \<and>
          (\<forall>x \<in> set (a # xs). x \<le> (a # xs) ! 0)"
        by simp
      then show ?thesis by blast
    next
      assume "\<exists>j < length xs. argmax_from a i (Suc i) xs = Suc i + j \<and> a < xs ! j \<and>
          (\<forall>x \<in> set xs. x \<le> xs ! j)"
      then obtain j where j: "j < length xs" "argmax_from a i (Suc i) xs = Suc i + j"
        "a < xs ! j" "\<forall>x \<in> set xs. x \<le> xs ! j" by blast
      with True have "Suc j < length (a # xs) \<and> argmax_from best k i (a # xs) = i + Suc j \<and>
          best < (a # xs) ! Suc j \<and> (\<forall>x \<in> set (a # xs). x \<le> (a # xs) ! Suc j)"
        by auto
      then show ?thesis by blast
    qed
  next
    case False
    from Cons.IH[of best k "Suc i"] show ?thesis
    proof
      assume "argmax_from best k (Suc i) xs = k \<and> (\<forall>x \<in> set xs. x \<le> best)"
      with False show ?thesis by auto
    next
      assume "\<exists>j < length xs. argmax_from best k (Suc i) xs = Suc i + j \<and> best < xs ! j \<and>
          (\<forall>x \<in> set xs. x \<le> xs ! j)"
      then obtain j where j: "j < length xs" "argmax_from best k (Suc i) xs = Suc i + j"
        "best < xs ! j" "\<forall>x \<in> set xs. x \<le> xs ! j" by blast
      with False have "Suc j < length (a # xs) \<and> argmax_from best k i (a # xs) = i + Suc j \<and>
          best < (a # xs) ! Suc j \<and> (\<forall>x \<in> set (a # xs). x \<le> (a # xs) ! Suc j)"
        by auto
      then show ?thesis by blast
    qed
  qed
qed

lemma argmax_Inr:
  assumes "argmax xs = Inr k"
  shows "k < length xs \<and> (\<forall>x \<in> set xs. x \<le> xs ! k)"
proof -
  from assms obtain a r where xs: "xs = a # r" and k: "k = argmax_from a 0 1 r"
    by (auto simp: argmax_def split: list.splits)
  from argmax_from_cases[of a 0 1 r] show ?thesis
  proof
    assume "argmax_from a 0 1 r = 0 \<and> (\<forall>x \<in> set r. x \<le> a)"
    with xs k show ?thesis by auto
  next
    assume "\<exists>j < length r. argmax_from a 0 1 r = 1 + j \<and> a < r ! j \<and> (\<forall>x \<in> set r. x \<le> r ! j)"
    with xs k show ?thesis by auto
  qed
qed

lemma mapE_Inr_length: "mapE f xs = Inr ys \<Longrightarrow> length ys = length xs"
  by (induction xs arbitrary: ys) (auto simp: bindE_Inr_iff)

lemma mapE_Inr_set:
  "mapE f xs = Inr ys \<Longrightarrow> y \<in> set ys \<Longrightarrow> \<exists>x \<in> set xs. f x = Inr y"
  by (induction xs arbitrary: ys) (auto simp: bindE_Inr_iff)

lemma predict_Inr:
  assumes "predict L m X = Inr ys" and "fitted m = Some (cls, nf, p)"
  shows "length ys = length (mrows X) \<and> set ys \<subseteq> set cls"
proof
  from assms have mp: "mapE (\<lambda>x. bindE (argmax (map (nb_jll L p x) [0..<length cls]))
                          (\<lambda>k. Inr (cls ! k))) (mrows X) = Inr ys"
    by (simp add: predict_def split: if_splits)
  then show "length ys = length (mrows X)" by (rule mapE_Inr_length)
  show "set ys \<subseteq> set cls"
  proof
    fix c assume "c \<in> set ys"
    from mapE_Inr_set[OF mp this] obtain x k where
      "argmax (map (nb_jll L p x) [0..<length cls]) = Inr k" "c = cls ! k"
      by (auto simp: bindE_Inr_iff)
    with argmax_Inr[of "map (nb_jll L p x) [0..<length cls]" k] show "c \<in> set cls"
      by simp
  qed
qed

lemma fit_Inr:
  assumes "fit L m X y = Inr m'"
  shows "\<exists>p. nb_learn L (alpha m) (mrows X) y = Inr p \<and> length (mrows X) = length y \<and>
     m' = m\<lparr>fitted := Some (sort (remdups y), ncols X, p)\<rparr>"
  using assms by (auto simp: fit_def bindE_Inr_iff split: if_splits)

lemma mapE_Inr_nth:
  "mapE f xs = Inr ys \<Longrightarrow> i < length xs \<Longrightarrow> f (xs ! i) = Inr (ys ! i)"
proof (induction xs arbitrary: ys i)
  case Nil
  then show ?case by simp
next
  case (Cons x xs)
  then show ?case by (cases i) (auto simp: bindE_Inr_iff)
qed

lemma predict_most_likely:
  assumes "predict L m X = Inr ys" and "fitted m = Some (cls, nf, p)"
    and "i < length (mrows X)"
  shows "\<exists>k < length cls. ys ! i = cls ! k \<and>
     (\<forall>j < length cls. nb_jll L p (mrows X ! i) j \<le> nb_jll L p (mrows X ! i) k)"
proof -
  from assms(1,2) have mp: "mapE (\<lambda>x. bindE (argmax (map (nb_jll L p x) [0..<length cls]))
                          (\<lambda>k. Inr (cls ! k))) (mrows X) = Inr ys"
    by (simp add: predict_def split: if_splits)
  from mapE_Inr_nth[OF mp assms(3)] obtain k where
    k: "argmax (map (nb_jll L p (mrows X ! i)) [0..<length cls]) = Inr k" and c: "ys ! i = cls ! k"
    by (auto simp: bindE_Inr_iff)
  from argmax_Inr[OF k] have kl': "k < length (map (nb_jll L p (mrows X ! i)) [0..<length cls])"
    and mx: "\<forall>x \<in> set (map (nb_jll L p (mrows X ! i)) [0..<length cls]).
        x \<le> map (nb_jll L p (mrows X ! i)) [0..<length cls] ! k"
    by blast+
  from kl' have kl: "k < length cls" by simp
  have nk: "map (nb_jll L p (mrows X ! i)) [0..<length cls] ! k = nb_jll L p (mrows X ! i) k"
    using kl by simp
  from mx have "\<forall>j < length cls. nb_jll L p (mrows X ! i) j \<le> nb_jll L p (mrows X ! i) k"
    unfolding nk by simp
  with kl c show ?thesis by blast
qed

subsection \<open>The split\<close>

lemma safe_indexing_Inr:
  "safe_indexing xs inds = Inr ys \<longleftrightarrow> (\<forall>i \<in> set inds. i < length xs) \<and> ys = map (\<lambda>i. xs ! i) inds"
  by (auto simp: safe_indexing_def list_all_iff)

lemma train_test_split_Inr:
  assumes "train_test_split L g X y ts rs = Inr (Xtr, Xte, ytr, yte)"
  shows "set Xtr \<subseteq> set X \<and> set Xte \<subseteq> set X \<and> set ytr \<subseteq> set y \<and> set yte \<subseteq> set y"
  using assms
  by (auto simp: train_test_split_def Let_def bindE_Inr_iff safe_indexing_Inr split: if_splits)

lemma n_test_10: "nat \<lceil>float_mul (fl (3 / 10)) 10\<rceil> = 3"
  by code_simp

lemma mset_map_nth:
  assumes "mset p = mset [0..<length xs]"
  shows "mset (map (\<lambda>i. xs ! i) p) = mset xs"
proof -
  have "mset (map (\<lambda>i. xs ! i) p) = image_mset (\<lambda>i. xs ! i) (mset p)" by simp
  also have "\<dots> = image_mset (\<lambda>i. xs ! i) (mset [0..<length xs])" using assms by simp
  also have "\<dots> = mset (map (\<lambda>i. xs ! i) [0..<length xs])" by simp
  also have "\<dots> = mset xs" by (simp add: map_nth)
  finally show ?thesis .
qed

lemma split_10:
  assumes X: "length X = 10" and y: "length y = 10"
    and perm: "mset (permutation L (RandomState L 42) 10) = mset [0..<10]"
  shows "\<exists>test train.
     test @ train = permutation L (RandomState L 42) 10 \<and> length test = 3 \<and> length train = 7 \<and>
     train_test_split L g X y (fl (3 / 10)) (Some 42) =
       Inr (map (\<lambda>i. X ! i) train, map (\<lambda>i. X ! i) test,
            map (\<lambda>i. y ! i) train, map (\<lambda>i. y ! i) test)"
proof -
  define p where "p = permutation L (RandomState L 42) 10"
  from perm have "size (mset p) = size (mset [0..<10])" unfolding p_def by simp
  then have lp: "length p = 10" by simp
  from perm have "set_mset (mset p) = set_mset (mset [0..<10])" unfolding p_def by simp
  then have sp: "set p = {0..<10}" by simp
  have t7: "take 7 (drop 3 p) = drop 3 p" using lp by simp
  have in3: "\<forall>i \<in> set (take 3 p). i < 10" using sp by (auto dest: in_set_takeD)
  have in7: "\<forall>i \<in> set (drop 3 p). i < 10" using sp by (auto dest: in_set_dropD)
  have "train_test_split L g X y (fl (3 / 10)) (Some 42) =
       Inr (map (\<lambda>i. X ! i) (drop 3 p), map (\<lambda>i. X ! i) (take 3 p),
            map (\<lambda>i. y ! i) (drop 3 p), map (\<lambda>i. y ! i) (take 3 p))"
    using in3 in7
    by (simp add: train_test_split_def X y test_size_range n_test_10 Let_def
        check_random_state_def p_def[symmetric] t7 safe_indexing_def list_all_iff bindE_def)
  moreover have "take 3 p @ drop 3 p = p" by simp
  moreover have "length (take 3 p) = 3" "length (drop 3 p) = 7" using lp by simp_all
  ultimately show ?thesis unfolding p_def by blast
qed

lemma split_10_props:
  assumes X: "length X = 10" and y: "length y = 10"
    and perm: "mset (permutation L (RandomState L 42) 10) = mset [0..<10]"
  shows "\<exists>X_train X_test y_train y_test.
     train_test_split L g X y (fl (3 / 10)) (Some 42) = Inr (X_train, X_test, y_train, y_test) \<and>
     length X_train = 7 \<and> length X_test = 3 \<and> length y_train = 7 \<and> length y_test = 3 \<and>
     mset (X_train @ X_test) = mset X \<and> mset (y_train @ y_test) = mset y \<and>
     mset (zip X_train y_train @ zip X_test y_test) = mset (zip X y)"
proof -
  from split_10[OF assms, of g] obtain test train where
    p: "test @ train = permutation L (RandomState L 42) 10" and
    l: "length test = 3" "length train = 7" and
    s: "train_test_split L g X y (fl (3 / 10)) (Some 42) =
       Inr (map (\<lambda>i. X ! i) train, map (\<lambda>i. X ! i) test,
            map (\<lambda>i. y ! i) train, map (\<lambda>i. y ! i) test)"
    by blast
  from p perm have m: "mset (train @ test) = mset [0..<10]" by (metis mset_append add.commute)
  have mX: "mset (map (\<lambda>i. X ! i) (train @ test)) = mset X"
    using m X by (intro mset_map_nth) simp
  have my: "mset (map (\<lambda>i. y ! i) (train @ test)) = mset y"
    using m y by (intro mset_map_nth) simp
  have inb: "\<forall>i \<in> set (train @ test). i < 10"
    using m by (metis atLeastLessThan_iff set_mset_mset set_upt)
  have mz0: "mset (map (\<lambda>i. zip X y ! i) (train @ test)) = mset (zip X y)"
    using m X y by (intro mset_map_nth) simp
  have e: "map (\<lambda>i. zip X y ! i) (train @ test) = map (\<lambda>i. (X ! i, y ! i)) (train @ test)"
    using inb X y by (intro map_cong) auto
  have mz: "mset (map (\<lambda>i. (X ! i, y ! i)) (train @ test)) = mset (zip X y)"
    unfolding e[symmetric] by (rule mz0)
  have z: "zip (map (\<lambda>i. X ! i) is) (map (\<lambda>i. y ! i) is) = map (\<lambda>i. (X ! i, y ! i)) is" for "is"
    by (induction "is") simp_all
  from s l mX my mz show ?thesis by (simp add: z)
qed

lemma labels_y0: "set (map snd y0) = {''spam'', ''ham''}"
  by (auto simp: y0_def)

lemma labels_X0_y0: "map fst X0 = [0..<10]" "map fst y0 = [0..<10]"
  by (simp_all add: X0_def y0_def upt_rec)

lemma fst_nth_X0: "i < 10 \<Longrightarrow> fst (X0 ! i) = i"
proof -
  assume i: "i < 10"
  have "length X0 = 10" by (simp add: X0_def)
  with i have "fst (X0 ! i) = map fst X0 ! i" by simp
  also have "\<dots> = i" using i by (simp only: labels_X0_y0 nth_upt)
  finally show ?thesis .
qed

lemma fst_nth_y0: "i < 10 \<Longrightarrow> fst (y0 ! i) = i"
proof -
  assume i: "i < 10"
  have "length y0 = 10" by (simp add: y0_def)
  with i have "fst (y0 ! i) = map fst y0 ! i" by simp
  also have "\<dots> = i" using i by (simp only: labels_X0_y0 nth_upt)
  finally show ?thesis .
qed

lemma split_X0_y0:
  assumes perm: "mset (permutation L (RandomState L 42) 10) = mset [0..<10]"
  shows "\<exists>X_train X_test y_train y_test.
     train_test_split L g X0 y0 (fl (3 / 10)) (Some 42) = Inr (X_train, X_test, y_train, y_test) \<and>
     length X_train = 7 \<and> length X_test = 3 \<and> length y_train = 7 \<and> length y_test = 3 \<and>
     set (map fst X_train) \<inter> set (map fst X_test) = {} \<and>
     mset (X_train @ X_test) = mset X0 \<and> mset (y_train @ y_test) = mset y0 \<and>
     map fst y_train = map fst X_train \<and> map fst y_test = map fst X_test \<and>
     mset (zip X_train y_train @ zip X_test y_test) = mset (zip X0 y0)"
proof -
  have lX: "length X0 = 10" and ly: "length y0 = 10" by (simp_all add: X0_def y0_def)
  from split_10[OF lX ly perm, of g] obtain test train where
    p: "test @ train = permutation L (RandomState L 42) 10" and
    l: "length test = 3" "length train = 7" and
    s: "train_test_split L g X0 y0 (fl (3 / 10)) (Some 42) =
       Inr (map (\<lambda>i. X0 ! i) train, map (\<lambda>i. X0 ! i) test,
            map (\<lambda>i. y0 ! i) train, map (\<lambda>i. y0 ! i) test)"
    by blast
  from split_10_props[OF lX ly perm, of g] s
  have props: "mset (map (\<lambda>i. X0 ! i) train @ map (\<lambda>i. X0 ! i) test) = mset X0"
    "mset (map (\<lambda>i. y0 ! i) train @ map (\<lambda>i. y0 ! i) test) = mset y0"
    "mset (zip (map (\<lambda>i. X0 ! i) train) (map (\<lambda>i. y0 ! i) train) @
           zip (map (\<lambda>i. X0 ! i) test) (map (\<lambda>i. y0 ! i) test)) = mset (zip X0 y0)"
    by auto
  from p perm have m: "mset (test @ train) = mset [0..<10]" by simp
  then have "distinct (test @ train)" by (metis distinct_upt mset_eq_imp_distinct_iff)
  then have dj: "set train \<inter> set test = {}" by auto
  from m have "set (test @ train) = set [0..<10]" by (rule mset_eq_setD)
  then have inb: "\<forall>i \<in> set train. i < 10" "\<forall>i \<in> set test. i < 10" by auto
  have fX: "map fst (map (\<lambda>i. X0 ! i) train) = train" "map fst (map (\<lambda>i. X0 ! i) test) = test"
    using inb by (simp_all add: fst_nth_X0 map_idI)
  have fy: "map fst (map (\<lambda>i. y0 ! i) train) = train" "map fst (map (\<lambda>i. y0 ! i) test) = test"
    using inb by (simp_all add: fst_nth_y0 map_idI)
  have "length (map (\<lambda>i. X0 ! i) train) = 7 \<and> length (map (\<lambda>i. X0 ! i) test) = 3 \<and>
     length (map (\<lambda>i. y0 ! i) train) = 7 \<and> length (map (\<lambda>i. y0 ! i) test) = 3 \<and>
     set (map fst (map (\<lambda>i. X0 ! i) train)) \<inter> set (map fst (map (\<lambda>i. X0 ! i) test)) = {} \<and>
     map fst (map (\<lambda>i. y0 ! i) train) = map fst (map (\<lambda>i. X0 ! i) train) \<and>
     map fst (map (\<lambda>i. y0 ! i) test) = map fst (map (\<lambda>i. X0 ! i) test)"
    unfolding fX fy using l dj by simp
  with s props show ?thesis by blast
qed

subsection \<open>The runs on the small libraries\<close>

lemma calls_completed:
  "map fst completed_calls =
     [Np_random_seed, Pd_DataFrame, To_csv, Getitem, Getitem, Train_test_split,
      New_TfidfVectorizer, Fit_transform, Transform, New_MultinomialNB, Fit, Predict,
      Accuracy_score, Classification_report, Confusion_matrix, Plt_figure, Sns_heatmap,
      Plt_title, Plt_xlabel, Plt_ylabel, Plt_show, Transform, Predict]"
  by (simp add: completed_calls_def)

lemma completed_new_predictions:
  assumes "notebook L (start g) = (Inr G, w)"
  shows "length (v_new_predictions G) = length new_emails"
proof -
  from notebook_Inr[OF assms] obtain v where
    Mnew: "v_new_emails_tfidf G = transform_with L v new_emails" and
    fit: "fit L MultinomialNB (v_X_train_tfidf G) (map snd (v_y_train G)) = Inr (v_model G)" and
    p2: "predict L (v_model G) (v_new_emails_tfidf G) = Inr (v_new_predictions G)"
    by blast
  from fit_Inr[OF fit] obtain p where
    fm: "fitted (v_model G) =
      Some (sort (remdups (map snd (v_y_train G))), ncols (v_X_train_tfidf G), p)"
    by auto
  from predict_Inr[OF p2 fm] show ?thesis by (simp add: Mnew transform_with_def)
qed

lemma classes0:
  "sort (remdups [''spam'', ''ham'', ''spam'', ''ham'', ''spam'', ''ham'', ''spam'']) =
     [''ham'', ''spam'']"
  by code_simp

lemma fl_third: "float_div 1 3 = 6004799503160661 / 18014398509481984"
  by code_simp

lemma labels0:
  "sort (remdups [''spam'', ''ham'', ''ham'', ''spam'', ''spam'', ''spam'']) = [''ham'', ''spam'']"
  by code_simp

lemma for_each_print_prediction:
  assumes "\<And>k c. raises L k c = None"
  shows "for_each (print_prediction L) xs w =
     (Inr (), w\<lparr>steps := length xs + steps w, effects := effects w @ map prediction_line xs\<rparr>)"
  by (induction xs arbitrary: w)
     (simp_all add: ret_def andthen_def print_prediction_def print_def prediction_line_def
        Let_def assms)

lemma notebook_run:
  assumes "\<And>k c. raises L k c = None"
    and "train_test_split L (RandomState L 42) X0 y0 (fl (3 / 10)) (Some 42) =
             Inr (Xtr, Xte, ytr, yte)"
    and "tfidf_learn L (Some ''english'') (Some 100) (map snd Xtr) = Inr v"
    and "fit L MultinomialNB (transform_with L v (map snd Xtr)) (map snd ytr) = Inr model"
    and "predict L model (transform_with L v (map snd Xte)) = Inr yp"
    and "accuracy_score (map snd yte) yp = Inr acc"
    and "classification_report L (map snd yte) yp [''ham'', ''spam''] = Inr rep"
    and "confusion_matrix (map snd yte) yp = Inr cm"
    and "predict L model (transform_with L v new_emails) = Inr np"
  shows "fst (notebook L (start g)) =
     Inr \<lparr>v_df = df0, v_X = X0, v_y = y0, v_X_train = Xtr, v_X_test = Xte,
          v_y_train = ytr, v_y_test = yte,
          v_tfidf = \<lparr>stop_words = Some ''english'', max_features = Some 100,
                      vocabulary = Some v\<rparr>,
          v_X_train_tfidf = transform_with L v (map snd Xtr),
          v_X_test_tfidf = transform_with L v (map snd Xte),
          v_model = model, v_y_pred = yp, v_accuracy = acc, v_cm = cm,
          v_new_emails_tfidf = transform_with L v new_emails, v_new_predictions = np\<rparr>"
  using assms(2-)
  by (simp add: notebook_def andthen_def cell1_def cell2_def cell3_def cell4_def cell5_def
      cell6_def np_random_seed_def to_csv_def lib_def print_def modify_def ret_def Let_def
      assms(1) start_def DataFrame_data getitem_email getitem_label fit_transform_def
      transform_def TfidfVectorizer_def bindE_def draw_def plt_show_def plt_figure_def
      sns_heatmap_def plt_title_def plt_xlabel_def plt_ylabel_def
      for_each_print_prediction[OF assms(1)])

lemma split0:
  "train_test_split (stand_in R W) g X0 y0 (fl (3 / 10)) (Some 42) =
     Inr (v_X_train G0, v_X_test G0, v_y_train G0, v_y_test G0)"
  by (simp add: train_test_split_def X0_def y0_def stand_in_def G0_def test_size_range n_test_10
      check_random_state_def safe_indexing_def bindE_def)

lemma fit0:
  "fit (stand_in R W) MultinomialNB (v_X_train_tfidf G0) (map snd (v_y_train G0)) =
     Inr (v_model G0)"
  by (simp add: fit_def G0_def stand_in_def MultinomialNB_def bindE_def classes0)

lemma predict0_test:
  "predict (stand_in R W) (v_model G0) (v_X_test_tfidf G0) = Inr (v_y_pred G0)"
  by (simp add: predict_def G0_def stand_in_def bindE_def argmax_def upt_rec)

lemma accuracy0: "accuracy_score (map snd (v_y_test G0)) (v_y_pred G0) = Inr (v_accuracy G0)"
  by (simp add: accuracy_score_def G0_def fl_third)

lemma cm0: "confusion_matrix (map snd (v_y_test G0)) (v_y_pred G0) = Inr (v_cm G0)"
  by (simp add: confusion_matrix_def G0_def labels0)

lemma learn0:
  "tfidf_learn (stand_in R W) (Some ''english'') (Some 100) (map snd (v_X_train G0)) =
     Inr (map snd (v_X_train G0))"
  by (simp add: stand_in_def G0_def)

lemma train_matrix0:
  "transform_with (stand_in R W) (map snd (v_X_train G0)) (map snd (v_X_train G0)) =
     v_X_train_tfidf G0"
  by (simp add: transform_with_def stand_in_def G0_def)

lemma test_matrix0:
  "transform_with (stand_in R W) (map snd (v_X_train G0)) (map snd (v_X_test G0)) =
     v_X_test_tfidf G0"
  by (simp add: transform_with_def stand_in_def G0_def)

lemma new_matrix0:
  "transform_with (stand_in R W) (map snd (v_X_train G0)) new_emails = v_new_emails_tfidf G0"
  by (simp add: transform_with_def stand_in_def G0_def new_emails_def)

lemma predict0_new:
  "predict (stand_in R W) (v_model G0) (v_new_emails_tfidf G0) = Inr (v_new_predictions G0)"
  by (simp add: predict_def G0_def stand_in_def bindE_def argmax_def upt_rec)

lemma report0:
  "classification_report (stand_in R W) (map snd (v_y_test G0)) (v_y_pred G0) [''ham'', ''spam''] =
     Inr ''report''"
  by (simp add: stand_in_def)

lemma run_stand_in: "fst (notebook (stand_in (\<lambda>k c. None) W) (start g)) = Inr G0"
proof -
  let ?L = "stand_in (\<lambda>k c. None) W"
  have nr: "raises ?L k c = None" for k c by (simp add: stand_in_def)
  have rs: "RandomState ?L 42 = 42" by (simp add: stand_in_def)
  have "fst (notebook ?L (start g)) =
     Inr \<lparr>v_df = df0, v_X = X0, v_y = y0, v_X_train = v_X_train G0, v_X_test = v_X_test G0,
          v_y_train = v_y_train G0, v_y_test = v_y_test G0,
          v_tfidf = \<lparr>stop_words = Some ''english'', max_features = Some 100,
                      vocabulary = Some (map snd (v_X_train G0))\<rparr>,
          v_X_train_tfidf = transform_with ?L (map snd (v_X_train G0)) (map snd (v_X_train G0)),
          v_X_test_tfidf = transform_with ?L (map snd (v_X_train G0)) (map snd (v_X_test G0)),
          v_model = v_model G0, v_y_pred = v_y_pred G0, v_accuracy = v_accuracy G0,
          v_cm = v_cm G0,
          v_new_emails_tfidf = transform_with ?L (map snd (v_X_train G0)) new_emails,
          v_new_predictions = v_new_predictions G0\<rparr>"
    by (rule notebook_run[OF nr split0 learn0 _ _ accuracy0 report0 cm0])
       (simp_all only: train_matrix0 test_matrix0 new_matrix0 fit0 predict0_test predict0_new)
  then show ?thesis
    unfolding train_matrix0 test_matrix0 new_matrix0 by (simp add: G0_def)
qed

lemma run0: "fst (notebook L0 (start 0)) = Inr G0"
  unfolding L0_def by (rule run_stand_in)

lemma run0_pair: "notebook L0 (start 0) = (Inr G0, snd (notebook L0 (start 0)))"
  by (simp add: run0[symmetric])



lemma run2:
  "fst (notebook L2 (start 0)) = Inl (OSError ''[Errno 21] Is a directory: spam_email_data.csv'')"
  "calls (snd (notebook L2 (start 0))) =
     [(Np_random_seed, None), (Pd_DataFrame, None),
      (To_csv, Some (OSError ''[Errno 21] Is a directory: spam_email_data.csv''))]"
  "effects (snd (notebook L2 (start 0))) = [Stdout [Str ''Sample Dataset:''], Stdout [Frame df0]]"
  by (simp_all add: notebook_cells after_cell1_def cell1_def cell2_def np_random_seed_def
      to_csv_def andthen_def lib_def print_def modify_def Let_def L2_def stand_in_def
      DataFrame_data start_def)

lemma perm0: "mset (permutation L0 (RandomState L0 42) 10) = mset [0..<10]"
proof -
  have "sort [8, 1, 5, 0, 7, 2, 9, 4, 3, 6] = [0..<(10::nat)]"
    by (simp add: upt_rec)
  then have "mset [8, 1, 5, 0, 7, 2, 9, 4, 3, 6] = mset [0..<(10::nat)]"
    by (metis mset_sort)
  then show ?thesis by (simp add: L0_def stand_in_def)
qed

lemma unseeded_split_reads_generator:
  "train_test_split L0 42 X0 y0 (fl (3 / 10)) None \<noteq> train_test_split L0 0 X0 y0 (fl (3 / 10)) None"
  by (simp add: train_test_split_def X0_def y0_def L0_def stand_in_def test_size_range n_test_10
      check_random_state_def safe_indexing_def bindE_def upt_rec)

lemma cell2_L0: "fst (cell2 L0 (start 0)) = Inr df0"
  by (simp add: cell2_def to_csv_def andthen_def lib_def print_def modify_def ret_def Let_def
      L0_def stand_in_def DataFrame_data start_def)

lemma split_L0:
  "train_test_split L0 g X0 y0 (fl (3 / 10)) (Some 42) =
     Inr (v_X_train G0, v_X_test G0, v_y_train G0, v_y_test G0)"
  unfolding L0_def by (rule split0)



section \<open>The claims\<close>

text \<open>
  C1, as the code has it. In a run that completes, the library calls are made in one
  fixed order: the data is constructed, the raw text and labels are split into train and
  test sets, the TF-IDF vectorizer is fitted on the training text and applied to the test
  text, the classifier is fitted, the test set is predicted, the metrics are reported, and
  the three new strings are transformed and predicted. The split comes before the
  vectorization and none follows it: the split takes the two columns of the dataset as
  they are, and the vectorizer learns from the training text only.
\<close>

theorem split_before_vectorize:
  assumes "notebook L (start g) = (Inr G, w)"
  shows "map fst (calls w) =
     [Np_random_seed, Pd_DataFrame, To_csv, Getitem, Getitem, Train_test_split,
      New_TfidfVectorizer, Fit_transform, Transform, New_MultinomialNB, Fit, Predict,
      Accuracy_score, Classification_report, Confusion_matrix, Plt_figure, Sns_heatmap,
      Plt_title, Plt_xlabel, Plt_ylabel, Plt_show, Transform, Predict] \<and>
     precedes Train_test_split Fit_transform (map fst (calls w)) \<and>
     \<not> precedes Fit_transform Train_test_split (map fst (calls w)) \<and>
     train_test_split L (RandomState L 42) (v_X G) (v_y G) (fl (3 / 10)) (Some 42) =
       Inr (v_X_train G, v_X_test G, v_y_train G, v_y_test G) \<and>
     map_of data ''email'' = Some (map snd (v_X G)) \<and>
     map_of data ''label'' = Some (map snd (v_y G)) \<and>
     (\<exists>v. tfidf_learn L (Some ''english'') (Some 100) (map snd (v_X_train G)) = Inr v \<and>
          vocabulary (v_tfidf G) = Some v \<and>
          v_X_train_tfidf G = transform_with L v (map snd (v_X_train G)) \<and>
          v_X_test_tfidf G = transform_with L v (map snd (v_X_test G)))"
proof -
  from notebook_Inr[OF assms] obtain v where
    X: "v_X G = X0" and y: "v_y G = y0" and
    split: "train_test_split L (RandomState L 42) X0 y0 (fl (3 / 10)) (Some 42) =
       Inr (v_X_train G, v_X_test G, v_y_train G, v_y_test G)" and
    learn: "tfidf_learn L (Some ''english'') (Some 100) (map snd (v_X_train G)) = Inr v" and
    tf: "v_tfidf G = \<lparr>stop_words = Some ''english'', max_features = Some 100,
       vocabulary = Some v\<rparr>" and
    Mtr: "v_X_train_tfidf G = transform_with L v (map snd (v_X_train G))" and
    Mte: "v_X_test_tfidf G = transform_with L v (map snd (v_X_test G))" and
    calls: "calls w = completed_calls"
    by blast
  have c: "map fst (calls w) =
     [Np_random_seed, Pd_DataFrame, To_csv, Getitem, Getitem, Train_test_split,
      New_TfidfVectorizer, Fit_transform, Transform, New_MultinomialNB, Fit, Predict,
      Accuracy_score, Classification_report, Confusion_matrix, Plt_figure, Sns_heatmap,
      Plt_title, Plt_xlabel, Plt_ylabel, Plt_show, Transform, Predict]"
    by (simp only: calls calls_completed)
  have p: "precedes Train_test_split Fit_transform (map fst (calls w))"
    "\<not> precedes Fit_transform Train_test_split (map fst (calls w))"
    unfolding c by (simp_all add: precedes_def)
  have m: "map_of data ''email'' = Some (map snd X0)" "map_of data ''label'' = Some (map snd y0)"
    by (simp_all add: data_def X0_def y0_def)
  from c p split learn tf Mtr Mte m show ?thesis unfolding X y by simp
qed

theorem split_before_vectorize_witness:
  "fst (notebook L0 (start 0)) = Inr G0 \<and>
   precedes Train_test_split Fit_transform (map fst (calls (snd (notebook L0 (start 0))))) \<and>
   vocabulary (v_tfidf G0) = Some (map snd (v_X_train G0))"
proof -
  from split_before_vectorize[OF run0_pair]
  have "precedes Train_test_split Fit_transform (map fst (calls (snd (notebook L0 (start 0)))))"
    by blast
  moreover have "vocabulary (v_tfidf G0) = Some (map snd (v_X_train G0))"
    by (simp add: G0_def)
  ultimately show ?thesis using run0 by simp
qed

text \<open>
  C1 as stated puts the TF-IDF vectorization before the train/test split. On the library
  \<open>L0\<close> the run completes and no split follows the first vectorizer call.
\<close>

theorem vectorize_before_split_counterexample:
  "fst (notebook L0 (start 0)) = Inr G0 \<and>
   \<not> precedes Fit_transform Train_test_split (map fst (calls (snd (notebook L0 (start 0)))))"
proof -
  from notebook_Inr[OF run0_pair] have "calls (snd (notebook L0 (start 0))) = completed_calls"
    by blast
  then have "\<not> precedes Fit_transform Train_test_split
      (map fst (calls (snd (notebook L0 (start 0)))))"
    by (simp add: calls_completed precedes_def)
  with run0 show ?thesis by simp
qed

text \<open>
  C2. The data-creation cell builds one table with exactly the two columns \<open>email\<close> and
  \<open>label\<close> and exactly ten rows, fixed in the source; every row has two fields, and its
  label is \<open>spam\<close> or \<open>ham\<close>. Whenever cell 2 returns, with any libraries and from any
  state, this table is what it has bound to \<^verbatim>\<open>df\<close>.
\<close>

theorem dataset_shape:
  "\<exists>df. DataFrame data = Inr df \<and>
     (\<forall>L w r w'. cell2 L w = (Inr r, w') \<longrightarrow> r = df) \<and>
     df_columns df = [''email'', ''label''] \<and>
     length (df_rows df) = 10 \<and>
     list_all (\<lambda>r. length r = 2 \<and> (r ! 1 = ''spam'' \<or> r ! 1 = ''ham'')) (df_rows df)"
proof -
  have "df_columns df0 = [''email'', ''label'']" "length (df_rows df0) = 10"
    "list_all (\<lambda>r. length r = 2 \<and> (r ! 1 = ''spam'' \<or> r ! 1 = ''ham'')) (df_rows df0)"
    by (simp_all add: df0_def)
  moreover have "\<forall>L w r w'. cell2 L w = (Inr r, w') \<longrightarrow> r = df0"
    by (auto dest: cell2_Inr)
  ultimately show ?thesis using DataFrame_data by blast
qed

theorem dataset_shape_witness:
  "\<exists>df. DataFrame data = Inr df \<and> fst (cell2 L0 (start 0)) = Inr df \<and>
     df_columns df = [''email'', ''label''] \<and> length (df_rows df) = 10"
proof -
  from dataset_shape[where ?'a = "string list" and ?'b = "nat list" and ?'c = unit]
  obtain df where
    d: "DataFrame data = Inr df" and
    c: "\<forall>(L :: (string list, nat list, unit) library) w r w'. cell2 L w = (Inr r, w') \<longrightarrow> r = df" and
    p: "df_columns df = [''email'', ''label'']" "length (df_rows df) = 10"
    by blast
  have "cell2 L0 (start 0) = (Inr df0, snd (cell2 L0 (start 0)))"
    by (simp add: cell2_L0[symmetric])
  with c have "df0 = df" by blast
  with d p cell2_L0 show ?thesis by auto
qed




text \<open>
  C4. In a run that completes, the classifier returns exactly one prediction for each of
  the held-out test rows and for each of the three new emails; every prediction is a
  label of the training set, hence \<open>spam\<close> or \<open>ham\<close>, and it is a class of largest joint
  log likelihood for its row.
\<close>

theorem predictions_are_labels:
  assumes "notebook L (start g) = (Inr G, w)"
  shows "length (v_y_pred G) = length (v_X_test G) \<and>
     length (v_new_predictions G) = length new_emails \<and>
     set (v_y_pred G) \<subseteq> set (map snd (v_y_train G)) \<and>
     set (v_new_predictions G) \<subseteq> set (map snd (v_y_train G)) \<and>
     set (map snd (v_y_train G)) \<subseteq> {''spam'', ''ham''} \<and>
     (\<exists>cls nf p. fitted (v_model G) = Some (cls, nf, p) \<and>
        (\<forall>i < length (v_X_test G). \<exists>k < length cls. v_y_pred G ! i = cls ! k \<and>
           (\<forall>j < length cls. nb_jll L p (mrows (v_X_test_tfidf G) ! i) j
                \<le> nb_jll L p (mrows (v_X_test_tfidf G) ! i) k)) \<and>
        (\<forall>i < length new_emails. \<exists>k < length cls. v_new_predictions G ! i = cls ! k \<and>
           (\<forall>j < length cls. nb_jll L p (mrows (v_new_emails_tfidf G) ! i) j
                \<le> nb_jll L p (mrows (v_new_emails_tfidf G) ! i) k)))"
proof -
  from notebook_Inr[OF assms] obtain v where
    split: "train_test_split L (RandomState L 42) X0 y0 (fl (3 / 10)) (Some 42) =
       Inr (v_X_train G, v_X_test G, v_y_train G, v_y_test G)" and
    Mte: "v_X_test_tfidf G = transform_with L v (map snd (v_X_test G))" and
    Mnew: "v_new_emails_tfidf G = transform_with L v new_emails" and
    fit: "fit L MultinomialNB (v_X_train_tfidf G) (map snd (v_y_train G)) = Inr (v_model G)" and
    p1: "predict L (v_model G) (v_X_test_tfidf G) = Inr (v_y_pred G)" and
    p2: "predict L (v_model G) (v_new_emails_tfidf G) = Inr (v_new_predictions G)"
    by blast
  from fit_Inr[OF fit] obtain p where
    fm: "fitted (v_model G) =
      Some (sort (remdups (map snd (v_y_train G))), ncols (v_X_train_tfidf G), p)"
    by auto
  have lte: "length (mrows (v_X_test_tfidf G)) = length (v_X_test G)"
    by (simp add: Mte transform_with_def)
  have lnew: "length (mrows (v_new_emails_tfidf G)) = length new_emails"
    by (simp add: Mnew transform_with_def)
  from predict_Inr[OF p1 fm] lte
  have a: "length (v_y_pred G) = length (v_X_test G)"
    "set (v_y_pred G) \<subseteq> set (map snd (v_y_train G))" by simp_all
  from predict_Inr[OF p2 fm] lnew
  have b: "length (v_new_predictions G) = length new_emails"
    "set (v_new_predictions G) \<subseteq> set (map snd (v_y_train G))" by simp_all
  from train_test_split_Inr[OF split] have "set (v_y_train G) \<subseteq> set y0" by simp
  then have "set (map snd (v_y_train G)) \<subseteq> set (map snd y0)" by auto
  with labels_y0 have c: "set (map snd (v_y_train G)) \<subseteq> {''spam'', ''ham''}" by simp
  have d: "\<forall>i < length (v_X_test G). \<exists>k < length (sort (remdups (map snd (v_y_train G)))).
       v_y_pred G ! i = sort (remdups (map snd (v_y_train G))) ! k \<and>
       (\<forall>j < length (sort (remdups (map snd (v_y_train G)))).
          nb_jll L p (mrows (v_X_test_tfidf G) ! i) j \<le> nb_jll L p (mrows (v_X_test_tfidf G) ! i) k)"
    using predict_most_likely[OF p1 fm] lte by simp
  have e: "\<forall>i < length new_emails. \<exists>k < length (sort (remdups (map snd (v_y_train G)))).
       v_new_predictions G ! i = sort (remdups (map snd (v_y_train G))) ! k \<and>
       (\<forall>j < length (sort (remdups (map snd (v_y_train G)))).
          nb_jll L p (mrows (v_new_emails_tfidf G) ! i) j
            \<le> nb_jll L p (mrows (v_new_emails_tfidf G) ! i) k)"
    using predict_most_likely[OF p2 fm] lnew by simp
  from a b c d e fm show ?thesis by blast
qed

theorem predictions_are_labels_witness:
  "fst (notebook L0 (start 0)) = Inr G0 \<and>
   length (v_y_pred G0) = 3 \<and> length (v_new_predictions G0) = 3 \<and>
   set (v_y_pred G0) \<subseteq> {''spam'', ''ham''} \<and> set (v_new_predictions G0) \<subseteq> {''spam'', ''ham''}"
proof -
  from predictions_are_labels[OF run0_pair]
  have "length (v_y_pred G0) = length (v_X_test G0)"
    "length (v_new_predictions G0) = length new_emails"
    "set (v_y_pred G0) \<subseteq> set (map snd (v_y_train G0))"
    "set (v_new_predictions G0) \<subseteq> set (map snd (v_y_train G0))"
    "set (map snd (v_y_train G0)) \<subseteq> {''spam'', ''ham''}"
    by blast+
  moreover have "length (v_X_test G0) = 3" by (simp add: G0_def)
  moreover have "length new_emails = 3" by (simp add: new_emails_def)
  ultimately show ?thesis using run0 by auto
qed

text \<open>
  C5. In a run that completes, after the evaluation cell the notebook takes exactly three
  new email strings, transforms them with the vectorizer object as the one
  \<^verbatim>\<open>fit_transform\<close> call of the run left it (fitted on the training text, not fitted
  again), predicts them with the fitted classifier, and prints one line per string with
  its predicted label.
\<close>

theorem new_emails_through_fitted_vectorizer:
  assumes "notebook L (start g) = (Inr G, w)"
  shows "length new_emails = 3 \<and>
     (\<exists>v. tfidf_learn L (Some ''english'') (Some 100) (map snd (v_X_train G)) = Inr v \<and>
          vocabulary (v_tfidf G) = Some v \<and>
          v_new_emails_tfidf G = transform_with L v new_emails) \<and>
     transform L (v_tfidf G) new_emails = Inr (v_new_emails_tfidf G) \<and>
     predict L (v_model G) (v_new_emails_tfidf G) = Inr (v_new_predictions G) \<and>
     length (v_new_predictions G) = 3 \<and>
     length (filter (\<lambda>c. fst c = Fit_transform) (calls w)) = 1 \<and>
     drop 20 (map fst (calls w)) = [Plt_show, Transform, Predict] \<and>
     drop 10 (effects w) = map prediction_line (zip new_emails (v_new_predictions G))"
proof -
  from notebook_Inr[OF assms] obtain v rep where
    learn: "tfidf_learn L (Some ''english'') (Some 100) (map snd (v_X_train G)) = Inr v" and
    tf: "v_tfidf G = \<lparr>stop_words = Some ''english'', max_features = Some 100,
       vocabulary = Some v\<rparr>" and
    Mnew: "v_new_emails_tfidf G = transform_with L v new_emails" and
    p2: "predict L (v_model G) (v_new_emails_tfidf G) = Inr (v_new_predictions G)" and
    calls: "calls w = completed_calls" and
    eff: "effects w =
       [Stdout [Str ''Sample Dataset:''], Stdout [Frame df0],
        FileWrite ''spam_email_data.csv'' (to_csv_lines df0),
        Stdout [Str ''Training data shape: '', Shape (shape (v_X_train_tfidf G))],
        Stdout [Str ''Testing data shape: '', Shape (shape (v_X_test_tfidf G))],
        Stdout [Str ''Predictions on test set:'', Labels (v_y_pred G)],
        Stdout [Str ''Accuracy: '', Fixed2 (v_accuracy G)],
        Stdout [Str (CHR 0x0A # ''Classification Report:'')],
        Stdout [Str rep],
        Display (confusion_figure (v_cm G))]
       @ map prediction_line (zip new_emails (v_new_predictions G))"
    by blast
  have n3: "length new_emails = 3" by (simp add: new_emails_def)
  have tr: "transform L (v_tfidf G) new_emails = Inr (v_new_emails_tfidf G)"
    by (simp add: transform_def tf Mnew)
  have l3: "length (v_new_predictions G) = 3"
    using completed_new_predictions[OF assms] n3 by simp
  have c1: "length (filter (\<lambda>c. fst c = Fit_transform) (calls w)) = 1"
    by (simp add: calls completed_calls_def)
  have c2: "drop 20 (map fst (calls w)) = [Plt_show, Transform, Predict]"
    by (simp add: calls completed_calls_def)
  have e: "drop 10 (effects w) = map prediction_line (zip new_emails (v_new_predictions G))"
    unfolding eff by simp
  from n3 learn tf Mnew tr p2 l3 c1 c2 e show ?thesis by simp
qed

theorem new_emails_through_fitted_vectorizer_witness:
  "fst (notebook L0 (start 0)) = Inr G0 \<and>
   transform L0 (v_tfidf G0) new_emails = Inr (v_new_emails_tfidf G0) \<and>
   v_new_predictions G0 = [''spam'', ''spam'', ''spam''] \<and>
   length (filter (\<lambda>c. fst c = Fit_transform) (calls (snd (notebook L0 (start 0))))) = 1"
proof -
  from new_emails_through_fitted_vectorizer[OF run0_pair]
  have "transform L0 (v_tfidf G0) new_emails = Inr (v_new_emails_tfidf G0)"
    "length (filter (\<lambda>c. fst c = Fit_transform) (calls (snd (notebook L0 (start 0))))) = 1"
    by blast+
  moreover have "v_new_predictions G0 = [''spam'', ''spam'', ''spam'']" by (simp add: G0_def)
  ultimately show ?thesis using run0 by simp
qed

text \<open>
  C6. In a run that completes, the test predictions are the composition of the two
  library operations and nothing else: the vectorizer learns from the training text as
  the split returned it (rows of the dataset, unchanged), the classifier learns from
  exactly the vectorizer's rows of the training text and the training labels, and it
  predicts exactly the vectorizer's rows of the test text. Between the split and the
  metrics the only library calls are the two constructors, \<^verbatim>\<open>fit_transform\<close>,
  \<^verbatim>\<open>transform\<close>, \<^verbatim>\<open>fit\<close> and \<^verbatim>\<open>predict\<close>.
\<close>

theorem pipeline_is_vectorize_then_bayes:
  assumes "notebook L (start g) = (Inr G, w)"
  shows "\<exists>v p.
     tfidf_learn L (Some ''english'') (Some 100) (map snd (v_X_train G)) = Inr v \<and>
     nb_learn L 1 (map (tfidf_row L v) (map snd (v_X_train G))) (map snd (v_y_train G)) = Inr p \<and>
     v_model G =
       \<lparr>alpha = 1,
        fitted = Some (sort (remdups (map snd (v_y_train G))), tfidf_width L v, p)\<rparr> \<and>
     predict L (v_model G)
       \<lparr>ncols = tfidf_width L v, mrows = map (tfidf_row L v) (map snd (v_X_test G))\<rparr> =
       Inr (v_y_pred G) \<and>
     set (v_X_train G) \<subseteq> set (v_X G) \<and> set (v_X_test G) \<subseteq> set (v_X G) \<and>
     map_of data ''email'' = Some (map snd (v_X G)) \<and>
     takeWhile (\<lambda>c. c \<noteq> Accuracy_score)
       (tl (dropWhile (\<lambda>c. c \<noteq> Train_test_split) (map fst (calls w)))) =
       [New_TfidfVectorizer, Fit_transform, Transform, New_MultinomialNB, Fit, Predict]"
proof -
  from notebook_Inr[OF assms] obtain v where
    X: "v_X G = X0" and
    split: "train_test_split L (RandomState L 42) X0 y0 (fl (3 / 10)) (Some 42) =
       Inr (v_X_train G, v_X_test G, v_y_train G, v_y_test G)" and
    learn: "tfidf_learn L (Some ''english'') (Some 100) (map snd (v_X_train G)) = Inr v" and
    Mtr: "v_X_train_tfidf G = transform_with L v (map snd (v_X_train G))" and
    Mte: "v_X_test_tfidf G = transform_with L v (map snd (v_X_test G))" and
    fit: "fit L MultinomialNB (v_X_train_tfidf G) (map snd (v_y_train G)) = Inr (v_model G)" and
    p1: "predict L (v_model G) (v_X_test_tfidf G) = Inr (v_y_pred G)" and
    calls: "calls w = completed_calls"
    by blast
  from fit_Inr[OF fit] obtain p where
    nl: "nb_learn L 1 (mrows (v_X_train_tfidf G)) (map snd (v_y_train G)) = Inr p"
    and m: "v_model G = \<lparr>alpha = 1, fitted =
        Some (sort (remdups (map snd (v_y_train G))), ncols (v_X_train_tfidf G), p)\<rparr>"
    by (auto simp: MultinomialNB_def)
  have a: "nb_learn L 1 (map (tfidf_row L v) (map snd (v_X_train G))) (map snd (v_y_train G)) = Inr p"
    using nl by (simp add: Mtr transform_with_def)
  have b: "v_model G =
       \<lparr>alpha = 1,
        fitted = Some (sort (remdups (map snd (v_y_train G))), tfidf_width L v, p)\<rparr>"
    using m by (simp add: Mtr transform_with_def)
  have c: "predict L (v_model G)
       \<lparr>ncols = tfidf_width L v, mrows = map (tfidf_row L v) (map snd (v_X_test G))\<rparr> =
       Inr (v_y_pred G)"
    using p1 by (simp add: Mte transform_with_def)
  from train_test_split_Inr[OF split]
  have d: "set (v_X_train G) \<subseteq> set (v_X G)" "set (v_X_test G) \<subseteq> set (v_X G)"
    by (simp_all add: X)
  have e: "map_of data ''email'' = Some (map snd (v_X G))"
    by (simp add: X data_def X0_def)
  have f: "takeWhile (\<lambda>c. c \<noteq> Accuracy_score)
       (tl (dropWhile (\<lambda>c. c \<noteq> Train_test_split) (map fst (calls w)))) =
       [New_TfidfVectorizer, Fit_transform, Transform, New_MultinomialNB, Fit, Predict]"
    by (simp add: calls completed_calls_def)
  from learn a b c d e f show ?thesis by blast
qed

theorem pipeline_is_vectorize_then_bayes_witness:
  "fst (notebook L0 (start 0)) = Inr G0 \<and>
   (\<exists>v p. tfidf_learn L0 (Some ''english'') (Some 100) (map snd (v_X_train G0)) = Inr v \<and>
      predict L0 \<lparr>alpha = 1, fitted = Some ([''ham'', ''spam''], tfidf_width L0 v, p)\<rparr>
        \<lparr>ncols = tfidf_width L0 v, mrows = map (tfidf_row L0 v) (map snd (v_X_test G0))\<rparr> =
        Inr [''spam'', ''spam'', ''spam''])"
proof -
  from pipeline_is_vectorize_then_bayes[OF run0_pair] obtain v p where
    "tfidf_learn L0 (Some ''english'') (Some 100) (map snd (v_X_train G0)) = Inr v"
    "v_model G0 =
       \<lparr>alpha = 1,
        fitted = Some (sort (remdups (map snd (v_y_train G0))), tfidf_width L0 v, p)\<rparr>"
    "predict L0 (v_model G0)
       \<lparr>ncols = tfidf_width L0 v, mrows = map (tfidf_row L0 v) (map snd (v_X_test G0))\<rparr> =
       Inr (v_y_pred G0)"
    by blast
  moreover have "sort (remdups (map snd (v_y_train G0))) = [''ham'', ''spam'']"
    using classes0 by (simp add: G0_def)
  moreover have "v_y_pred G0 = [''spam'', ''spam'', ''spam'']" by (simp add: G0_def)
  ultimately show ?thesis using run0 by auto
qed

text \<open>
  C7. Every library call of the notebook and every \<^verbatim>\<open>print\<close> may raise, whatever its
  arguments. An exception raised by any of them is the outcome of the run, unchanged: if
  any call of the run raised \<open>e\<close>, the run ends with \<open>e\<close>; and a run that ends with \<open>e\<close>
  made the raising call last, every earlier call having returned. Nothing in the notebook
  catches, replaces or inspects an exception. The witness is the run on \<open>L2\<close>, where
  \<^verbatim>\<open>to_csv\<close> raises.
\<close>

theorem exceptions_reach_the_caller:
  assumes "notebook L (start g) = (r, w)"
  shows "(\<forall>c e. (c, Some e) \<in> set (calls w) \<longrightarrow> r = Inl e) \<and>
         (\<forall>e. r = Inl e \<longrightarrow>
            (\<exists>c cs. calls w = cs @ [(c, Some e)] \<and> list_all (\<lambda>x. snd x = None) cs))"
proof (intro conjI allI impI)
  fix c e assume "(c, Some e) \<in> set (calls w)"
  with assms show "r = Inl e" by (rule raised_is_result)
next
  fix e assume "r = Inl e"
  with exceptions_propagate[OF assms]
  show "\<exists>c cs. calls w = cs @ [(c, Some e)] \<and> list_all (\<lambda>x. snd x = None) cs"
    by (simp add: returned_def)
qed

theorem exceptions_reach_the_caller_witness:
  "(To_csv, Some (OSError ''[Errno 21] Is a directory: spam_email_data.csv''))
     \<in> set (calls (snd (notebook L2 (start 0)))) \<and>
   fst (notebook L2 (start 0)) = Inl (OSError ''[Errno 21] Is a directory: spam_email_data.csv'')"
proof -
  have mem: "(To_csv, Some (OSError ''[Errno 21] Is a directory: spam_email_data.csv''))
     \<in> set (calls (snd (notebook L2 (start 0))))"
    by (simp add: run2(2))
  have pair: "notebook L2 (start 0) = (fst (notebook L2 (start 0)), snd (notebook L2 (start 0)))"
    by simp
  from exceptions_reach_the_caller[OF pair] mem show ?thesis by blast
qed

text \<open>
  C8. With \<^verbatim>\<open>test_size=0.3\<close> and a generator whose \<^verbatim>\<open>permutation(10)\<close> is a permutation
  of the ten positions, the split of the two columns of the dataset returns (it does not
  raise) 7 training and 3 test records; no row label is in both sets, the two sets
  together are the ten records, text and label of each set carry the same row labels in
  the same order, and the (text, label) pairs of the two sets together are the pairs of
  the dataset. These are the sets every completed run binds.
\<close>

theorem split_seven_three:
  assumes df: "DataFrame data = Inr df"
    and X: "getitem df ''email'' = Inr X" and y: "getitem df ''label'' = Inr y"
    and perm: "mset (permutation L (RandomState L 42) 10) = mset [0..<10]"
  shows "\<exists>X_train X_test y_train y_test.
     train_test_split L g X y (fl (3 / 10)) (Some 42) = Inr (X_train, X_test, y_train, y_test) \<and>
     length X = 10 \<and> length y = 10 \<and>
     length X_train = 7 \<and> length X_test = 3 \<and> length y_train = 7 \<and> length y_test = 3 \<and>
     set (map fst X_train) \<inter> set (map fst X_test) = {} \<and>
     mset (X_train @ X_test) = mset X \<and> mset (y_train @ y_test) = mset y \<and>
     map fst y_train = map fst X_train \<and> map fst y_test = map fst X_test \<and>
     mset (zip X_train y_train @ zip X_test y_test) = mset (zip X y) \<and>
     (\<forall>G w. notebook L (start g') = (Inr G, w) \<longrightarrow>
        v_X G = X \<and> v_y G = y \<and> v_X_train G = X_train \<and> v_X_test G = X_test \<and>
        v_y_train G = y_train \<and> v_y_test G = y_test)"
proof -
  from df DataFrame_data have d: "df = df0" by simp
  from X y have XX: "X = X0" and yy: "y = y0"
    unfolding d by (simp_all add: getitem_email getitem_label)
  from split_X0_y0[OF perm, of g] obtain X_train X_test y_train y_test where
    s: "train_test_split L g X0 y0 (fl (3 / 10)) (Some 42) = Inr (X_train, X_test, y_train, y_test)"
    and props: "length X_train = 7 \<and> length X_test = 3 \<and> length y_train = 7 \<and> length y_test = 3 \<and>
     set (map fst X_train) \<inter> set (map fst X_test) = {} \<and>
     mset (X_train @ X_test) = mset X0 \<and> mset (y_train @ y_test) = mset y0 \<and>
     map fst y_train = map fst X_train \<and> map fst y_test = map fst X_test \<and>
     mset (zip X_train y_train @ zip X_test y_test) = mset (zip X0 y0)"
    by blast
  have len: "length X0 = 10 \<and> length y0 = 10" by (simp add: X0_def y0_def)
  have link: "\<forall>G w. notebook L (start g') = (Inr G, w) \<longrightarrow>
        v_X G = X0 \<and> v_y G = y0 \<and> v_X_train G = X_train \<and> v_X_test G = X_test \<and>
        v_y_train G = y_train \<and> v_y_test G = y_test"
  proof (intro allI impI)
    fix G w assume run: "notebook L (start g') = (Inr G, w)"
    from notebook_Inr[OF run] have "v_X G = X0" "v_y G = y0"
      "train_test_split L (RandomState L 42) X0 y0 (fl (3 / 10)) (Some 42) =
         Inr (v_X_train G, v_X_test G, v_y_train G, v_y_test G)"
      by blast+
    moreover have "train_test_split L (RandomState L 42) X0 y0 (fl (3 / 10)) (Some 42) =
        Inr (X_train, X_test, y_train, y_test)"
      using s by (simp only: train_test_split_seeded[of L "RandomState L 42" _ _ _ _ g])
    ultimately show "v_X G = X0 \<and> v_y G = y0 \<and> v_X_train G = X_train \<and> v_X_test G = X_test \<and>
        v_y_train G = y_train \<and> v_y_test G = y_test"
      by simp
  qed
  from s props len link show ?thesis unfolding XX yy by blast
qed

theorem split_seven_three_witness:
  "DataFrame data = Inr df0 \<and> getitem df0 ''email'' = Inr X0 \<and> getitem df0 ''label'' = Inr y0 \<and>
   mset (permutation L0 (RandomState L0 42) 10) = mset [0..<10] \<and>
   train_test_split L0 0 X0 y0 (fl (3 / 10)) (Some 42) =
     Inr (v_X_train G0, v_X_test G0, v_y_train G0, v_y_test G0) \<and>
   length (v_X_train G0) = 7 \<and> length (v_X_test G0) = 3 \<and>
   mset (v_X_train G0 @ v_X_test G0) = mset X0 \<and>
   mset (zip (v_X_train G0) (v_y_train G0) @ zip (v_X_test G0) (v_y_test G0)) = mset (zip X0 y0)"
proof -
  from split_seven_three[OF DataFrame_data getitem_email getitem_label perm0, of 0]
  obtain X_train X_test y_train y_test where
    s: "train_test_split L0 0 X0 y0 (fl (3 / 10)) (Some 42) = Inr (X_train, X_test, y_train, y_test)"
    and p: "length X_train = 7" "length X_test = 3" "mset (X_train @ X_test) = mset X0"
      "mset (zip X_train y_train @ zip X_test y_test) = mset (zip X0 y0)"
    by blast
  from s split_L0[of 0] have "X_train = v_X_train G0" "X_test = v_X_test G0"
    "y_train = v_y_train G0" "y_test = v_y_test G0" by simp_all
  with s p DataFrame_data getitem_email getitem_label perm0 show ?thesis by simp
qed

text \<open>
  C9. The label column of the dataset has five \<open>spam\<close> and five \<open>ham\<close> among its ten
  entries, and the label of row \<open>i\<close> is \<open>spam\<close> for even \<open>i\<close> and \<open>ham\<close> for odd \<open>i\<close>,
  starting with \<open>spam\<close> at row 0.
\<close>

theorem labels_balanced_alternating:
  "\<exists>df y. DataFrame data = Inr df \<and> getitem df ''label'' = Inr y \<and>
     length y = 10 \<and>
     length (filter (\<lambda>il. snd il = ''spam'') y) = 5 \<and>
     length (filter (\<lambda>il. snd il = ''ham'') y) = 5 \<and>
     map fst y = [0..<10] \<and>
     list_all (\<lambda>il. snd il = (if even (fst il) then ''spam'' else ''ham'')) y"
proof -
  have "length y0 = 10" "length (filter (\<lambda>il. snd il = ''spam'') y0) = 5"
    "length (filter (\<lambda>il. snd il = ''ham'') y0) = 5"
    "list_all (\<lambda>il. snd il = (if even (fst il) then ''spam'' else ''ham'')) y0"
    by (simp_all add: y0_def)
  moreover have "map fst y0 = [0..<10]" by (simp add: y0_def upt_rec)
  ultimately show ?thesis using DataFrame_data getitem_label by blast
qed

text \<open>
  C10. The only sources of chance in a run are the state that NumPy's global generator
  starts in and the generator of the library. Cell 1 seeds the global generator with 42,
  the cells after it neither read nor write it (the split makes its own generator from
  \<^verbatim>\<open>random_state=42\<close>; lemma \<open>unseeded_split_reads_generator\<close> shows that a split without
  \<^verbatim>\<open>random_state\<close> does read it), and the one permutation a run draws is of ten positions
  from the state seeded with 42. So two runs from any two generator states, with
  libraries whose generators agree on that one draw and which are otherwise the same, end
  with the same outcome (the same variables, hence the same split, vocabulary, predictions
  and metrics, or the same exception), the same calls, the same effects and the same
  warnings.
\<close>

theorem run_independent_of_generator:
  assumes "p (RandomState L 42) 10 = permutation L (RandomState L 42) 10"
  shows "fst (notebook (L\<lparr>permutation := p\<rparr>) (start g')) = fst (notebook L (start g)) \<and>
     calls (snd (notebook (L\<lparr>permutation := p\<rparr>) (start g'))) = calls (snd (notebook L (start g))) \<and>
     effects (snd (notebook (L\<lparr>permutation := p\<rparr>) (start g'))) =
       effects (snd (notebook L (start g))) \<and>
     stderr (snd (notebook (L\<lparr>permutation := p\<rparr>) (start g'))) =
       stderr (snd (notebook L (start g))) \<and>
     notebook L = andthen (cell1 L) (\<lambda>_. after_cell1 L) \<and>
     (\<forall>w h. after_cell1 L (w\<lparr>np_random_state := h\<rparr>) =
        (fst (after_cell1 L w), (snd (after_cell1 L w))\<lparr>np_random_state := h\<rparr>))"
proof -
  have ig: "\<forall>w h. after_cell1 L (w\<lparr>np_random_state := h\<rparr>) =
      (fst (after_cell1 L w), (snd (after_cell1 L w))\<lparr>np_random_state := h\<rparr>)"
    using ignores_generator_after_cell1[of L] unfolding ignores_generator_def .
  note P = notebook_permutation[of p L, OF assms]
  show ?thesis
  proof (cases "raises L 0 Np_random_seed")
    case None
    have "notebook L (start g') = notebook L (start g)"
      by (simp add: notebook_cells andthen_def cell1_start(1)[OF None])
    then show ?thesis using ig notebook_cells by (simp add: P)
  next
    case (Some e)
    have r: "notebook L (start h) =
       (Inl e, \<lparr>np_random_state = h, gcf = None, steps = Suc 0,
                 stderr = warns L Np_random_seed, calls = [(Np_random_seed, Some e)],
                 effects = []\<rparr>)" for h
      by (simp add: notebook_cells andthen_def cell1_start(2)[OF Some])
    show ?thesis using ig notebook_cells by (simp add: r P)
  qed
qed

theorem run_independent_of_generator_witness:
  "permutation L4 7 10 \<noteq> permutation L0 7 10 \<and>
   fst (notebook L4 (start 7)) = Inr G0 \<and>
   calls (snd (notebook L4 (start 7))) = calls (snd (notebook L0 (start 0))) \<and>
   effects (snd (notebook L4 (start 7))) = effects (snd (notebook L0 (start 0))) \<and>
   stderr (snd (notebook L4 (start 7))) = stderr (snd (notebook L0 (start 0)))"
proof -
  have a: "permutation L4 (RandomState L0 42) 10 = permutation L0 (RandomState L0 42) 10"
    by (simp add: L4_def L0_def stand_in_def)
  have e: "L0\<lparr>permutation := permutation L4\<rparr> = L4"
    by (simp add: L4_def)
  have d: "permutation L4 7 10 \<noteq> permutation L0 7 10"
    by (simp add: L4_def L0_def stand_in_def upt_rec)
  from run_independent_of_generator[of "permutation L4" L0 7 0, OF a] d run0 show ?thesis
    unfolding e by simp
qed

end
